theory Spec2Isabelle
  imports Main "HOL-Library.Word"
begin

section \<open>The agent configuration (pkg/agent/config.go)\<close>

text \<open>
  Go's \<^verbatim>\<open>int\<close> is a 64-bit two's-complement integer on every target the agent is built
  for, and \<^verbatim>\<open>time.Duration\<close> is an \<^verbatim>\<open>int64\<close> count of nanoseconds; both are 64-bit
  words here, read as signed numbers with \<open>sint\<close>. A Go string is a byte sequence, so
  \<^verbatim>\<open>len(s) != 0\<close> is \<open>s \<noteq> []\<close>. A \<^verbatim>\<open>[]string\<close> field is a list of strings (no function
  of this file looks at the difference between a nil and an empty slice of a Config).
\<close>

type_synonym go_int = "64 word"
type_synonym Duration = "64 word"

text \<open>The struct \<^verbatim>\<open>Config\<close>, field by field in the order of the source.\<close>

record Config =
  AgentIP :: string
  AgentIPIface :: string
  AgentIPType :: string
  Export :: string
  TargetHost :: string
  TargetPort :: go_int
  GRPCMessageMaxFlows :: go_int
  Interfaces :: "string list"
  ExcludeInterfaces :: "string list"
  BuffersLength :: go_int
  InterfaceIPs :: "string list"
  ExporterBufferLength :: go_int
  CacheMaxFlows :: go_int
  CacheActiveTimeout :: Duration
  Deduper :: string
  DeduperFCExpiry :: Duration
  DeduperJustMark :: bool
  DeduperMerge :: bool
  Direction :: string
  LogLevel :: string
  Sampling :: go_int
  ListenInterfaces :: string
  ListenPollPeriod :: Duration
  KafkaBrokers :: "string list"
  KafkaTopic :: string
  KafkaBatchMessages :: go_int
  KafkaBatchSize :: go_int
  KafkaAsync :: bool
  KafkaCompression :: string
  KafkaEnableTLS :: bool
  KafkaTLSInsecureSkipVerify :: bool
  KafkaTLSCACertPath :: string
  KafkaTLSUserCertPath :: string
  KafkaTLSUserKeyPath :: string
  KafkaEnableSASL :: bool
  KafkaSASLType :: string
  KafkaSASLClientIDPath :: string
  KafkaSASLClientSecretPath :: string
  ProfilePort :: go_int
  FLPConfig :: string
  EnableRTT :: bool
  ForceGC :: bool
  EnablePktDrops :: bool
  EnableDNSTracking :: bool
  DNSTrackingPort :: "16 word"
  StaleEntriesEvictTimeout :: Duration
  EnablePCA :: bool
  MetricsEnable :: bool
  MetricsServerAddress :: string
  MetricsPort :: go_int
  MetricsTLSCertPath :: string
  MetricsTLSKeyPath :: string
  MetricsPrefix :: string
  EnableFlowFilter :: bool
  FlowFilterRules :: string
  EnableNetworkEventsMonitoring :: bool
  NetworkEventsMonitoringGroupID :: go_int
  EnablePktTranslationTracking :: bool
  EbpfProgramManagerMode :: bool
  BpfManBpfFSPath :: string
  FlowsTargetHost :: string
  FlowsTargetPort :: go_int
  PCAServerPort :: go_int

text \<open>
  \<^verbatim>\<open>manageDeprecatedConfigs\<close> updates the Config behind its pointer argument; the model
  takes the Config and returns the updated one, the two statements of the source in
  sequence. The calls of \<^verbatim>\<open>clog.Infof\<close> write a line to the logger and touch no field.
\<close>

definition manageDeprecatedConfigs :: "Config \<Rightarrow> Config" where
  "manageDeprecatedConfigs cfg0 =
     (let cfg = (if length (FlowsTargetHost cfg0) \<noteq> 0
                 then cfg0\<lparr>TargetHost := FlowsTargetHost cfg0\<rparr>
                 else cfg0)
      in if FlowsTargetPort cfg \<noteq> 0
         then cfg\<lparr>TargetPort := FlowsTargetPort cfg\<rparr>
         else if PCAServerPort cfg \<noteq> 0
         then cfg\<lparr>TargetPort := PCAServerPort cfg\<rparr>
         else cfg)"

text \<open>The zero value of the struct: what \<^verbatim>\<open>var cfg Config\<close> holds, every field unset.\<close>

definition zeroConfig :: Config where
  "zeroConfig = \<lparr>
     AgentIP = [], AgentIPIface = [], AgentIPType = [], Export = [],
     TargetHost = [], TargetPort = 0, GRPCMessageMaxFlows = 0,
     Interfaces = [], ExcludeInterfaces = [], BuffersLength = 0, InterfaceIPs = [],
     ExporterBufferLength = 0, CacheMaxFlows = 0, CacheActiveTimeout = 0,
     Deduper = [], DeduperFCExpiry = 0, DeduperJustMark = False, DeduperMerge = False,
     Direction = [], LogLevel = [], Sampling = 0, ListenInterfaces = [],
     ListenPollPeriod = 0, KafkaBrokers = [], KafkaTopic = [], KafkaBatchMessages = 0,
     KafkaBatchSize = 0, KafkaAsync = False, KafkaCompression = [],
     KafkaEnableTLS = False, KafkaTLSInsecureSkipVerify = False,
     KafkaTLSCACertPath = [], KafkaTLSUserCertPath = [], KafkaTLSUserKeyPath = [],
     KafkaEnableSASL = False, KafkaSASLType = [], KafkaSASLClientIDPath = [],
     KafkaSASLClientSecretPath = [], ProfilePort = 0, FLPConfig = [],
     EnableRTT = False, ForceGC = False, EnablePktDrops = False,
     EnableDNSTracking = False, DNSTrackingPort = 0, StaleEntriesEvictTimeout = 0,
     EnablePCA = False, MetricsEnable = False, MetricsServerAddress = [],
     MetricsPort = 0, MetricsTLSCertPath = [], MetricsTLSKeyPath = [],
     MetricsPrefix = [], EnableFlowFilter = False, FlowFilterRules = [],
     EnableNetworkEventsMonitoring = False, NetworkEventsMonitoringGroupID = 0,
     EnablePktTranslationTracking = False, EbpfProgramManagerMode = False,
     BpfManBpfFSPath = [], FlowsTargetHost = [], FlowsTargetPort = 0,
     PCAServerPort = 0 \<rparr>"

section \<open>The generated deep copies (api/v1alpha1/zz\_generated.deepcopy.go)\<close>

text \<open>
  The struct declarations of package v1alpha1 are in another file of the package, so each
  struct is a record of the fields its \<^verbatim>\<open>DeepCopyInto\<close> names, and one more field
  (\<open>_rest\<close>) for all the fields that only the assignment \<^verbatim>\<open>*out = *in\<close> copies; their
  type is the parameter \<open>'p\<close>. The structs of the Kubernetes libraries are type
  parameters too: \<open>'om\<close> is \<^verbatim>\<open>metav1.ObjectMeta\<close>, \<open>'lm\<close> is \<^verbatim>\<open>metav1.ListMeta\<close>, \<open>'rr\<close> is
  \<^verbatim>\<open>corev1.ResourceRequirements\<close>, \<open>'ms\<close> is \<^verbatim>\<open>v2beta2.MetricSpec\<close> and \<open>'cd\<close> is
  \<^verbatim>\<open>metav1.Condition\<close>.

  A pointer field is an \<open>option\<close> (\<open>None\<close> is nil), a slice is an optional list and a
  \<^verbatim>\<open>map[string]string\<close> an optional map (nil, or the elements), an \<^verbatim>\<open>int32\<close> is a 32-bit
  word. The field names carry the struct's name, since Go's field names repeat between
  the structs.
\<close>

type_synonym go_map = "(string \<rightharpoonup> string) option"

record 'p CertificateReference =
  CertificateReference_rest :: 'p

record 'p ClientTLS =
  ClientTLS_CACert :: "'p CertificateReference"
  ClientTLS_UserCert :: "'p CertificateReference"
  ClientTLS_rest :: 'p

record 'p ClusterNetworkOperatorConfig =
  ClusterNetworkOperatorConfig_rest :: 'p

record 'p ConsolePluginPortConfig =
  PortConfig_PortNames :: go_map
  PortConfig_rest :: 'p

record 'p ServerTLS =
  ServerTLS_Provided :: "'p CertificateReference option"
  ServerTLS_rest :: 'p

record 'p MetricsServerConfig =
  MetricsServerConfig_TLS :: "'p ServerTLS"
  MetricsServerConfig_rest :: 'p

record 'p FLPMetrics =
  FLPMetrics_Server :: "'p MetricsServerConfig"
  FLPMetrics_IgnoreTags :: "string list option"
  FLPMetrics_rest :: 'p

record 'p OVNKubernetesConfig =
  OVNKubernetesConfig_rest :: 'p

record 'p QuickFilter =
  QuickFilter_Filter :: go_map
  QuickFilter_rest :: 'p

record 'p FlowCollectorIPFIX =
  IPFIX_ClusterNetworkOperator :: "'p ClusterNetworkOperatorConfig"
  IPFIX_OVNKubernetes :: "'p OVNKubernetesConfig"
  IPFIX_rest :: 'p

record ('p, 'rr) FlowCollectorEBPF =
  EBPF_Resources :: 'rr
  EBPF_Sampling :: "32 word option"
  EBPF_Interfaces :: "string list option"
  EBPF_ExcludeInterfaces :: "string list option"
  EBPF_Env :: go_map
  EBPF_rest :: 'p

record ('p, 'rr) FlowCollectorAgent =
  Agent_IPFIX :: "'p FlowCollectorIPFIX"
  Agent_EBPF :: "('p, 'rr) FlowCollectorEBPF"
  Agent_rest :: 'p

record ('p, 'ms) FlowCollectorHPA =
  HPA_MinReplicas :: "32 word option"
  HPA_Metrics :: "'ms list option"
  HPA_rest :: 'p

record ('p, 'rr, 'ms) FlowCollectorConsolePlugin =
  ConsolePlugin_Resources :: 'rr
  ConsolePlugin_Autoscaler :: "('p, 'ms) FlowCollectorHPA"
  ConsolePlugin_PortNaming :: "'p ConsolePluginPortConfig"
  ConsolePlugin_QuickFilters :: "'p QuickFilter list option"
  ConsolePlugin_rest :: 'p

record 'p FlowCollectorKafka =
  Kafka_TLS :: "'p ClientTLS"
  Kafka_rest :: 'p

record 'p FlowCollectorExporter =
  Exporter_Kafka :: "'p FlowCollectorKafka"
  Exporter_rest :: 'p

record ('p, 'rr, 'ms) FlowCollectorFLP =
  FLP_Metrics :: "'p FLPMetrics"
  FLP_Resources :: 'rr
  FLP_KafkaConsumerAutoscaler :: "('p, 'ms) FlowCollectorHPA"
  FLP_Env :: go_map
  FLP_rest :: 'p

record 'p FlowCollectorLoki =
  Loki_BatchWait :: 'p
  Loki_Timeout :: 'p
  Loki_MinBackoff :: 'p
  Loki_MaxBackoff :: 'p
  Loki_StaticLabels :: go_map
  Loki_TLS :: "'p ClientTLS"
  Loki_rest :: 'p

record ('p, 'rr, 'ms) FlowCollectorSpec =
  Spec_Agent :: "('p, 'rr) FlowCollectorAgent"
  Spec_Processor :: "('p, 'rr, 'ms) FlowCollectorFLP"
  Spec_Loki :: "'p FlowCollectorLoki"
  Spec_ConsolePlugin :: "('p, 'rr, 'ms) FlowCollectorConsolePlugin"
  Spec_Kafka :: "'p FlowCollectorKafka"
  Spec_Exporters :: "'p FlowCollectorExporter option list option"
  Spec_rest :: 'p

record ('p, 'cd) FlowCollectorStatus =
  Status_Conditions :: "'cd list option"
  Status_rest :: 'p

record ('p, 'om, 'rr, 'ms, 'cd) FlowCollector =
  FlowCollector_TypeMeta :: 'p
  FlowCollector_ObjectMeta :: 'om
  FlowCollector_Spec :: "('p, 'rr, 'ms) FlowCollectorSpec"
  FlowCollector_Status :: "('p, 'cd) FlowCollectorStatus"
  FlowCollector_rest :: 'p

record ('p, 'om, 'lm, 'rr, 'ms, 'cd) FlowCollectorList =
  List_TypeMeta :: 'p
  List_ListMeta :: 'lm
  List_Items :: "('p, 'om, 'rr, 'ms, 'cd) FlowCollector list option"
  List_rest :: 'p

text \<open>
  The \<^verbatim>\<open>DeepCopyInto\<close> methods of the Kubernetes structs are code of the libraries; the
  functions below take them as the fields of one parameter.
\<close>

record ('om, 'lm, 'rr, 'ms, 'cd) K8s =
  ObjectMeta_DeepCopyInto :: "'om \<Rightarrow> 'om"
  ListMeta_DeepCopyInto :: "'lm \<Rightarrow> 'lm"
  ResourceRequirements_DeepCopyInto :: "'rr \<Rightarrow> 'rr"
  MetricSpec_DeepCopyInto :: "'ms \<Rightarrow> 'ms"
  Condition_DeepCopyInto :: "'cd \<Rightarrow> 'cd"

subsection \<open>Go's builtins on slices and maps\<close>

text \<open>
  \<^verbatim>\<open>make([]string, n)\<close> is a slice of \<open>n\<close> empty strings. \<^verbatim>\<open>copy(dst, src)\<close> overwrites the
  first \<open>min (len dst) (len src)\<close> elements of \<open>dst\<close>. The loop
  \<^verbatim>\<open>for key, val := range in { out[key] = val }\<close> on a fresh map stores every binding of
  \<open>in\<close> into the empty map (the order of a Go range over a map is not fixed, and the
  bindings have distinct keys, so the result does not depend on it).
\<close>

definition make_strings :: "nat \<Rightarrow> string list" where
  "make_strings n = replicate n []"

definition copy :: "'a list \<Rightarrow> 'a list \<Rightarrow> 'a list" where
  "copy dst src = (let n = min (length dst) (length src) in take n src @ drop n dst)"

definition copy_strings :: "string list \<Rightarrow> string list" where
  "copy_strings src = copy (make_strings (length src)) src"

definition copy_map :: "(string \<rightharpoonup> string) \<Rightarrow> (string \<rightharpoonup> string)" where
  "copy_map m = Map.empty ++ m"

subsection \<open>DeepCopyInto\<close>

text \<open>
  \<^verbatim>\<open>in.DeepCopyInto(out)\<close> begins with \<^verbatim>\<open>*out = *in\<close>, which overwrites all of \<open>out\<close>, so
  the model is a function of the value of \<open>in\<close> that returns the value written to \<open>out\<close>;
  every later statement of the source is one more binding of \<open>out\<close>. A loop
  \<^verbatim>\<open>for i := range *in\<close> over a slice that was made with the length of \<open>in\<close> is \<open>map\<close>.
\<close>

definition CertificateReference_DeepCopyInto ::
  "'p CertificateReference \<Rightarrow> 'p CertificateReference" where
  "CertificateReference_DeepCopyInto inp = (let out = inp in out)"

definition ClientTLS_DeepCopyInto :: "'p ClientTLS \<Rightarrow> 'p ClientTLS" where
  "ClientTLS_DeepCopyInto inp =
     (let out = inp;
          out = out\<lparr>ClientTLS_CACert := ClientTLS_CACert inp\<rparr>;
          out = out\<lparr>ClientTLS_UserCert := ClientTLS_UserCert inp\<rparr>
      in out)"

definition ClusterNetworkOperatorConfig_DeepCopyInto ::
  "'p ClusterNetworkOperatorConfig \<Rightarrow> 'p ClusterNetworkOperatorConfig" where
  "ClusterNetworkOperatorConfig_DeepCopyInto inp = (let out = inp in out)"

definition ConsolePluginPortConfig_DeepCopyInto ::
  "'p ConsolePluginPortConfig \<Rightarrow> 'p ConsolePluginPortConfig" where
  "ConsolePluginPortConfig_DeepCopyInto inp =
     (let out = inp;
          out = (case PortConfig_PortNames inp of
                   None \<Rightarrow> out
                 | Some m \<Rightarrow> out\<lparr>PortConfig_PortNames := Some (copy_map m)\<rparr>)
      in out)"

definition ServerTLS_DeepCopyInto :: "'p ServerTLS \<Rightarrow> 'p ServerTLS" where
  "ServerTLS_DeepCopyInto inp =
     (let out = inp;
          out = (case ServerTLS_Provided inp of
                   None \<Rightarrow> out
                 | Some c \<Rightarrow> out\<lparr>ServerTLS_Provided := Some c\<rparr>)
      in out)"

definition MetricsServerConfig_DeepCopyInto ::
  "'p MetricsServerConfig \<Rightarrow> 'p MetricsServerConfig" where
  "MetricsServerConfig_DeepCopyInto inp =
     (let out = inp;
          out = out\<lparr>MetricsServerConfig_TLS :=
                  ServerTLS_DeepCopyInto (MetricsServerConfig_TLS inp)\<rparr>
      in out)"

definition FLPMetrics_DeepCopyInto :: "'p FLPMetrics \<Rightarrow> 'p FLPMetrics" where
  "FLPMetrics_DeepCopyInto inp =
     (let out = inp;
          out = out\<lparr>FLPMetrics_Server :=
                  MetricsServerConfig_DeepCopyInto (FLPMetrics_Server inp)\<rparr>;
          out = (case FLPMetrics_IgnoreTags inp of
                   None \<Rightarrow> out
                 | Some xs \<Rightarrow> out\<lparr>FLPMetrics_IgnoreTags := Some (copy_strings xs)\<rparr>)
      in out)"

definition OVNKubernetesConfig_DeepCopyInto ::
  "'p OVNKubernetesConfig \<Rightarrow> 'p OVNKubernetesConfig" where
  "OVNKubernetesConfig_DeepCopyInto inp = (let out = inp in out)"

definition QuickFilter_DeepCopyInto :: "'p QuickFilter \<Rightarrow> 'p QuickFilter" where
  "QuickFilter_DeepCopyInto inp =
     (let out = inp;
          out = (case QuickFilter_Filter inp of
                   None \<Rightarrow> out
                 | Some m \<Rightarrow> out\<lparr>QuickFilter_Filter := Some (copy_map m)\<rparr>)
      in out)"

definition FlowCollectorIPFIX_DeepCopyInto ::
  "'p FlowCollectorIPFIX \<Rightarrow> 'p FlowCollectorIPFIX" where
  "FlowCollectorIPFIX_DeepCopyInto inp =
     (let out = inp;
          out = out\<lparr>IPFIX_ClusterNetworkOperator := IPFIX_ClusterNetworkOperator inp\<rparr>;
          out = out\<lparr>IPFIX_OVNKubernetes := IPFIX_OVNKubernetes inp\<rparr>
      in out)"

definition FlowCollectorEBPF_DeepCopyInto ::
  "('om, 'lm, 'rr, 'ms, 'cd) K8s \<Rightarrow> ('p, 'rr) FlowCollectorEBPF \<Rightarrow> ('p, 'rr) FlowCollectorEBPF"
  where
  "FlowCollectorEBPF_DeepCopyInto k inp =
     (let out = inp;
          out = out\<lparr>EBPF_Resources := ResourceRequirements_DeepCopyInto k (EBPF_Resources inp)\<rparr>;
          out = (case EBPF_Sampling inp of
                   None \<Rightarrow> out
                 | Some v \<Rightarrow> out\<lparr>EBPF_Sampling := Some v\<rparr>);
          out = (case EBPF_Interfaces inp of
                   None \<Rightarrow> out
                 | Some xs \<Rightarrow> out\<lparr>EBPF_Interfaces := Some (copy_strings xs)\<rparr>);
          out = (case EBPF_ExcludeInterfaces inp of
                   None \<Rightarrow> out
                 | Some xs \<Rightarrow> out\<lparr>EBPF_ExcludeInterfaces := Some (copy_strings xs)\<rparr>);
          out = (case EBPF_Env inp of
                   None \<Rightarrow> out
                 | Some m \<Rightarrow> out\<lparr>EBPF_Env := Some (copy_map m)\<rparr>)
      in out)"

definition FlowCollectorAgent_DeepCopyInto ::
  "('om, 'lm, 'rr, 'ms, 'cd) K8s \<Rightarrow> ('p, 'rr) FlowCollectorAgent \<Rightarrow> ('p, 'rr) FlowCollectorAgent"
  where
  "FlowCollectorAgent_DeepCopyInto k inp =
     (let out = inp;
          out = out\<lparr>Agent_IPFIX := Agent_IPFIX inp\<rparr>;
          out = out\<lparr>Agent_EBPF := FlowCollectorEBPF_DeepCopyInto k (Agent_EBPF inp)\<rparr>
      in out)"

definition FlowCollectorHPA_DeepCopyInto ::
  "('om, 'lm, 'rr, 'ms, 'cd) K8s \<Rightarrow> ('p, 'ms) FlowCollectorHPA \<Rightarrow> ('p, 'ms) FlowCollectorHPA"
  where
  "FlowCollectorHPA_DeepCopyInto k inp =
     (let out = inp;
          out = (case HPA_MinReplicas inp of
                   None \<Rightarrow> out
                 | Some v \<Rightarrow> out\<lparr>HPA_MinReplicas := Some v\<rparr>);
          out = (case HPA_Metrics inp of
                   None \<Rightarrow> out
                 | Some xs \<Rightarrow> out\<lparr>HPA_Metrics := Some (map (MetricSpec_DeepCopyInto k) xs)\<rparr>)
      in out)"

definition FlowCollectorConsolePlugin_DeepCopyInto ::
  "('om, 'lm, 'rr, 'ms, 'cd) K8s \<Rightarrow> ('p, 'rr, 'ms) FlowCollectorConsolePlugin
     \<Rightarrow> ('p, 'rr, 'ms) FlowCollectorConsolePlugin" where
  "FlowCollectorConsolePlugin_DeepCopyInto k inp =
     (let out = inp;
          out = out\<lparr>ConsolePlugin_Resources :=
                  ResourceRequirements_DeepCopyInto k (ConsolePlugin_Resources inp)\<rparr>;
          out = out\<lparr>ConsolePlugin_Autoscaler :=
                  FlowCollectorHPA_DeepCopyInto k (ConsolePlugin_Autoscaler inp)\<rparr>;
          out = out\<lparr>ConsolePlugin_PortNaming :=
                  ConsolePluginPortConfig_DeepCopyInto (ConsolePlugin_PortNaming inp)\<rparr>;
          out = (case ConsolePlugin_QuickFilters inp of
                   None \<Rightarrow> out
                 | Some xs \<Rightarrow>
                     out\<lparr>ConsolePlugin_QuickFilters := Some (map QuickFilter_DeepCopyInto xs)\<rparr>)
      in out)"

definition FlowCollectorKafka_DeepCopyInto ::
  "'p FlowCollectorKafka \<Rightarrow> 'p FlowCollectorKafka" where
  "FlowCollectorKafka_DeepCopyInto inp =
     (let out = inp;
          out = out\<lparr>Kafka_TLS := Kafka_TLS inp\<rparr>
      in out)"

definition FlowCollectorExporter_DeepCopyInto ::
  "'p FlowCollectorExporter \<Rightarrow> 'p FlowCollectorExporter" where
  "FlowCollectorExporter_DeepCopyInto inp =
     (let out = inp;
          out = out\<lparr>Exporter_Kafka := Exporter_Kafka inp\<rparr>
      in out)"

definition FlowCollectorFLP_DeepCopyInto ::
  "('om, 'lm, 'rr, 'ms, 'cd) K8s \<Rightarrow> ('p, 'rr, 'ms) FlowCollectorFLP
     \<Rightarrow> ('p, 'rr, 'ms) FlowCollectorFLP" where
  "FlowCollectorFLP_DeepCopyInto k inp =
     (let out = inp;
          out = out\<lparr>FLP_Metrics := FLPMetrics_DeepCopyInto (FLP_Metrics inp)\<rparr>;
          out = out\<lparr>FLP_Resources := ResourceRequirements_DeepCopyInto k (FLP_Resources inp)\<rparr>;
          out = out\<lparr>FLP_KafkaConsumerAutoscaler :=
                  FlowCollectorHPA_DeepCopyInto k (FLP_KafkaConsumerAutoscaler inp)\<rparr>;
          out = (case FLP_Env inp of
                   None \<Rightarrow> out
                 | Some m \<Rightarrow> out\<lparr>FLP_Env := Some (copy_map m)\<rparr>)
      in out)"

definition FlowCollectorLoki_DeepCopyInto ::
  "'p FlowCollectorLoki \<Rightarrow> 'p FlowCollectorLoki" where
  "FlowCollectorLoki_DeepCopyInto inp =
     (let out = inp;
          out = out\<lparr>Loki_BatchWait := Loki_BatchWait inp\<rparr>;
          out = out\<lparr>Loki_Timeout := Loki_Timeout inp\<rparr>;
          out = out\<lparr>Loki_MinBackoff := Loki_MinBackoff inp\<rparr>;
          out = out\<lparr>Loki_MaxBackoff := Loki_MaxBackoff inp\<rparr>;
          out = (case Loki_StaticLabels inp of
                   None \<Rightarrow> out
                 | Some m \<Rightarrow> out\<lparr>Loki_StaticLabels := Some (copy_map m)\<rparr>);
          out = out\<lparr>Loki_TLS := Loki_TLS inp\<rparr>
      in out)"

text \<open>
  The elements of \<^verbatim>\<open>Exporters\<close> are pointers: a nil element stays nil (the slice made
  by \<^verbatim>\<open>make\<close> holds nil there), and any other gets a new struct that is assigned the
  value behind the pointer (\<^verbatim>\<open>**out = **in\<close>).
\<close>

definition FlowCollectorSpec_DeepCopyInto ::
  "('om, 'lm, 'rr, 'ms, 'cd) K8s \<Rightarrow> ('p, 'rr, 'ms) FlowCollectorSpec
     \<Rightarrow> ('p, 'rr, 'ms) FlowCollectorSpec" where
  "FlowCollectorSpec_DeepCopyInto k inp =
     (let out = inp;
          out = out\<lparr>Spec_Agent := FlowCollectorAgent_DeepCopyInto k (Spec_Agent inp)\<rparr>;
          out = out\<lparr>Spec_Processor := FlowCollectorFLP_DeepCopyInto k (Spec_Processor inp)\<rparr>;
          out = out\<lparr>Spec_Loki := FlowCollectorLoki_DeepCopyInto (Spec_Loki inp)\<rparr>;
          out = out\<lparr>Spec_ConsolePlugin :=
                  FlowCollectorConsolePlugin_DeepCopyInto k (Spec_ConsolePlugin inp)\<rparr>;
          out = out\<lparr>Spec_Kafka := Spec_Kafka inp\<rparr>;
          out = (case Spec_Exporters inp of
                   None \<Rightarrow> out
                 | Some xs \<Rightarrow>
                     out\<lparr>Spec_Exporters :=
                       Some (map (\<lambda>e. case e of None \<Rightarrow> None | Some v \<Rightarrow> Some v) xs)\<rparr>)
      in out)"

definition FlowCollectorStatus_DeepCopyInto ::
  "('om, 'lm, 'rr, 'ms, 'cd) K8s \<Rightarrow> ('p, 'cd) FlowCollectorStatus
     \<Rightarrow> ('p, 'cd) FlowCollectorStatus" where
  "FlowCollectorStatus_DeepCopyInto k inp =
     (let out = inp;
          out = (case Status_Conditions inp of
                   None \<Rightarrow> out
                 | Some xs \<Rightarrow>
                     out\<lparr>Status_Conditions := Some (map (Condition_DeepCopyInto k) xs)\<rparr>)
      in out)"

definition FlowCollector_DeepCopyInto ::
  "('om, 'lm, 'rr, 'ms, 'cd) K8s \<Rightarrow> ('p, 'om, 'rr, 'ms, 'cd) FlowCollector
     \<Rightarrow> ('p, 'om, 'rr, 'ms, 'cd) FlowCollector" where
  "FlowCollector_DeepCopyInto k inp =
     (let out = inp;
          out = out\<lparr>FlowCollector_TypeMeta := FlowCollector_TypeMeta inp\<rparr>;
          out = out\<lparr>FlowCollector_ObjectMeta :=
                  ObjectMeta_DeepCopyInto k (FlowCollector_ObjectMeta inp)\<rparr>;
          out = out\<lparr>FlowCollector_Spec := FlowCollectorSpec_DeepCopyInto k (FlowCollector_Spec inp)\<rparr>;
          out = out\<lparr>FlowCollector_Status :=
                  FlowCollectorStatus_DeepCopyInto k (FlowCollector_Status inp)\<rparr>
      in out)"

definition FlowCollectorList_DeepCopyInto ::
  "('om, 'lm, 'rr, 'ms, 'cd) K8s \<Rightarrow> ('p, 'om, 'lm, 'rr, 'ms, 'cd) FlowCollectorList
     \<Rightarrow> ('p, 'om, 'lm, 'rr, 'ms, 'cd) FlowCollectorList" where
  "FlowCollectorList_DeepCopyInto k inp =
     (let out = inp;
          out = out\<lparr>List_TypeMeta := List_TypeMeta inp\<rparr>;
          out = out\<lparr>List_ListMeta := ListMeta_DeepCopyInto k (List_ListMeta inp)\<rparr>;
          out = (case List_Items inp of
                   None \<Rightarrow> out
                 | Some xs \<Rightarrow> out\<lparr>List_Items := Some (map (FlowCollector_DeepCopyInto k) xs)\<rparr>)
      in out)"

subsection \<open>DeepCopy\<close>

text \<open>
  \<^verbatim>\<open>DeepCopy\<close> takes and returns a pointer, and allocates. The structs behind the pointers
  of one type live in a heap: a list of cells, the address of a cell being its index.
  Cells are never freed (Go collects garbage only when nothing points to it), so an
  allocation appends a cell, and the new address is the length of the heap before: an
  address that no pointer into the old heap holds. A nil pointer is \<open>None\<close>.
\<close>

type_synonym ptr = nat
type_synonym 'a heap = "'a list"

text \<open>
  \<^verbatim>\<open>out := new(T); in.DeepCopyInto(out)\<close>: the new cell is written once, by
  \<^verbatim>\<open>DeepCopyInto\<close>, which assigns all of \<^verbatim>\<open>*out\<close>; the model allocates the cell with
  what \<^verbatim>\<open>DeepCopyInto\<close> writes. The receiver \<open>p\<close> is a pointer of the running program, so
  it is an address of the heap.
\<close>

definition new_copy :: "('a \<Rightarrow> 'a) \<Rightarrow> 'a heap \<Rightarrow> ptr \<Rightarrow> 'a heap \<times> ptr" where
  "new_copy into h p = (h @ [into (h ! p)], length h)"

definition CertificateReference_DeepCopy ::
  "'p CertificateReference heap \<Rightarrow> ptr option
     \<Rightarrow> 'p CertificateReference heap \<times> ptr option" where
  "CertificateReference_DeepCopy h inp =
     (case inp of
        None \<Rightarrow> (h, None)
      | Some p \<Rightarrow>
          (let (h', out) = new_copy (CertificateReference_DeepCopyInto) h p
           in (h', Some out)))"

definition ClientTLS_DeepCopy ::
  "'p ClientTLS heap \<Rightarrow> ptr option
     \<Rightarrow> 'p ClientTLS heap \<times> ptr option" where
  "ClientTLS_DeepCopy h inp =
     (case inp of
        None \<Rightarrow> (h, None)
      | Some p \<Rightarrow>
          (let (h', out) = new_copy (ClientTLS_DeepCopyInto) h p
           in (h', Some out)))"

definition ClusterNetworkOperatorConfig_DeepCopy ::
  "'p ClusterNetworkOperatorConfig heap \<Rightarrow> ptr option
     \<Rightarrow> 'p ClusterNetworkOperatorConfig heap \<times> ptr option" where
  "ClusterNetworkOperatorConfig_DeepCopy h inp =
     (case inp of
        None \<Rightarrow> (h, None)
      | Some p \<Rightarrow>
          (let (h', out) = new_copy (ClusterNetworkOperatorConfig_DeepCopyInto) h p
           in (h', Some out)))"

definition ConsolePluginPortConfig_DeepCopy ::
  "'p ConsolePluginPortConfig heap \<Rightarrow> ptr option
     \<Rightarrow> 'p ConsolePluginPortConfig heap \<times> ptr option" where
  "ConsolePluginPortConfig_DeepCopy h inp =
     (case inp of
        None \<Rightarrow> (h, None)
      | Some p \<Rightarrow>
          (let (h', out) = new_copy (ConsolePluginPortConfig_DeepCopyInto) h p
           in (h', Some out)))"

definition FLPMetrics_DeepCopy ::
  "'p FLPMetrics heap \<Rightarrow> ptr option
     \<Rightarrow> 'p FLPMetrics heap \<times> ptr option" where
  "FLPMetrics_DeepCopy h inp =
     (case inp of
        None \<Rightarrow> (h, None)
      | Some p \<Rightarrow>
          (let (h', out) = new_copy (FLPMetrics_DeepCopyInto) h p
           in (h', Some out)))"

definition FlowCollector_DeepCopy ::
  "('om, 'lm, 'rr, 'ms, 'cd) K8s \<Rightarrow> ('p, 'om, 'rr, 'ms, 'cd) FlowCollector heap \<Rightarrow> ptr option
     \<Rightarrow> ('p, 'om, 'rr, 'ms, 'cd) FlowCollector heap \<times> ptr option" where
  "FlowCollector_DeepCopy k h inp =
     (case inp of
        None \<Rightarrow> (h, None)
      | Some p \<Rightarrow>
          (let (h', out) = new_copy (FlowCollector_DeepCopyInto k) h p
           in (h', Some out)))"

definition FlowCollectorAgent_DeepCopy ::
  "('om, 'lm, 'rr, 'ms, 'cd) K8s \<Rightarrow> ('p, 'rr) FlowCollectorAgent heap \<Rightarrow> ptr option
     \<Rightarrow> ('p, 'rr) FlowCollectorAgent heap \<times> ptr option" where
  "FlowCollectorAgent_DeepCopy k h inp =
     (case inp of
        None \<Rightarrow> (h, None)
      | Some p \<Rightarrow>
          (let (h', out) = new_copy (FlowCollectorAgent_DeepCopyInto k) h p
           in (h', Some out)))"

definition FlowCollectorConsolePlugin_DeepCopy ::
  "('om, 'lm, 'rr, 'ms, 'cd) K8s \<Rightarrow> ('p, 'rr, 'ms) FlowCollectorConsolePlugin heap \<Rightarrow> ptr option
     \<Rightarrow> ('p, 'rr, 'ms) FlowCollectorConsolePlugin heap \<times> ptr option" where
  "FlowCollectorConsolePlugin_DeepCopy k h inp =
     (case inp of
        None \<Rightarrow> (h, None)
      | Some p \<Rightarrow>
          (let (h', out) = new_copy (FlowCollectorConsolePlugin_DeepCopyInto k) h p
           in (h', Some out)))"

definition FlowCollectorEBPF_DeepCopy ::
  "('om, 'lm, 'rr, 'ms, 'cd) K8s \<Rightarrow> ('p, 'rr) FlowCollectorEBPF heap \<Rightarrow> ptr option
     \<Rightarrow> ('p, 'rr) FlowCollectorEBPF heap \<times> ptr option" where
  "FlowCollectorEBPF_DeepCopy k h inp =
     (case inp of
        None \<Rightarrow> (h, None)
      | Some p \<Rightarrow>
          (let (h', out) = new_copy (FlowCollectorEBPF_DeepCopyInto k) h p
           in (h', Some out)))"

definition FlowCollectorExporter_DeepCopy ::
  "'p FlowCollectorExporter heap \<Rightarrow> ptr option
     \<Rightarrow> 'p FlowCollectorExporter heap \<times> ptr option" where
  "FlowCollectorExporter_DeepCopy h inp =
     (case inp of
        None \<Rightarrow> (h, None)
      | Some p \<Rightarrow>
          (let (h', out) = new_copy (FlowCollectorExporter_DeepCopyInto) h p
           in (h', Some out)))"

definition FlowCollectorFLP_DeepCopy ::
  "('om, 'lm, 'rr, 'ms, 'cd) K8s \<Rightarrow> ('p, 'rr, 'ms) FlowCollectorFLP heap \<Rightarrow> ptr option
     \<Rightarrow> ('p, 'rr, 'ms) FlowCollectorFLP heap \<times> ptr option" where
  "FlowCollectorFLP_DeepCopy k h inp =
     (case inp of
        None \<Rightarrow> (h, None)
      | Some p \<Rightarrow>
          (let (h', out) = new_copy (FlowCollectorFLP_DeepCopyInto k) h p
           in (h', Some out)))"

definition FlowCollectorHPA_DeepCopy ::
  "('om, 'lm, 'rr, 'ms, 'cd) K8s \<Rightarrow> ('p, 'ms) FlowCollectorHPA heap \<Rightarrow> ptr option
     \<Rightarrow> ('p, 'ms) FlowCollectorHPA heap \<times> ptr option" where
  "FlowCollectorHPA_DeepCopy k h inp =
     (case inp of
        None \<Rightarrow> (h, None)
      | Some p \<Rightarrow>
          (let (h', out) = new_copy (FlowCollectorHPA_DeepCopyInto k) h p
           in (h', Some out)))"

definition FlowCollectorIPFIX_DeepCopy ::
  "'p FlowCollectorIPFIX heap \<Rightarrow> ptr option
     \<Rightarrow> 'p FlowCollectorIPFIX heap \<times> ptr option" where
  "FlowCollectorIPFIX_DeepCopy h inp =
     (case inp of
        None \<Rightarrow> (h, None)
      | Some p \<Rightarrow>
          (let (h', out) = new_copy (FlowCollectorIPFIX_DeepCopyInto) h p
           in (h', Some out)))"

definition FlowCollectorKafka_DeepCopy ::
  "'p FlowCollectorKafka heap \<Rightarrow> ptr option
     \<Rightarrow> 'p FlowCollectorKafka heap \<times> ptr option" where
  "FlowCollectorKafka_DeepCopy h inp =
     (case inp of
        None \<Rightarrow> (h, None)
      | Some p \<Rightarrow>
          (let (h', out) = new_copy (FlowCollectorKafka_DeepCopyInto) h p
           in (h', Some out)))"

definition FlowCollectorList_DeepCopy ::
  "('om, 'lm, 'rr, 'ms, 'cd) K8s \<Rightarrow> ('p, 'om, 'lm, 'rr, 'ms, 'cd) FlowCollectorList heap \<Rightarrow> ptr option
     \<Rightarrow> ('p, 'om, 'lm, 'rr, 'ms, 'cd) FlowCollectorList heap \<times> ptr option" where
  "FlowCollectorList_DeepCopy k h inp =
     (case inp of
        None \<Rightarrow> (h, None)
      | Some p \<Rightarrow>
          (let (h', out) = new_copy (FlowCollectorList_DeepCopyInto k) h p
           in (h', Some out)))"

definition FlowCollectorLoki_DeepCopy ::
  "'p FlowCollectorLoki heap \<Rightarrow> ptr option
     \<Rightarrow> 'p FlowCollectorLoki heap \<times> ptr option" where
  "FlowCollectorLoki_DeepCopy h inp =
     (case inp of
        None \<Rightarrow> (h, None)
      | Some p \<Rightarrow>
          (let (h', out) = new_copy (FlowCollectorLoki_DeepCopyInto) h p
           in (h', Some out)))"

definition FlowCollectorSpec_DeepCopy ::
  "('om, 'lm, 'rr, 'ms, 'cd) K8s \<Rightarrow> ('p, 'rr, 'ms) FlowCollectorSpec heap \<Rightarrow> ptr option
     \<Rightarrow> ('p, 'rr, 'ms) FlowCollectorSpec heap \<times> ptr option" where
  "FlowCollectorSpec_DeepCopy k h inp =
     (case inp of
        None \<Rightarrow> (h, None)
      | Some p \<Rightarrow>
          (let (h', out) = new_copy (FlowCollectorSpec_DeepCopyInto k) h p
           in (h', Some out)))"

definition FlowCollectorStatus_DeepCopy ::
  "('om, 'lm, 'rr, 'ms, 'cd) K8s \<Rightarrow> ('p, 'cd) FlowCollectorStatus heap \<Rightarrow> ptr option
     \<Rightarrow> ('p, 'cd) FlowCollectorStatus heap \<times> ptr option" where
  "FlowCollectorStatus_DeepCopy k h inp =
     (case inp of
        None \<Rightarrow> (h, None)
      | Some p \<Rightarrow>
          (let (h', out) = new_copy (FlowCollectorStatus_DeepCopyInto k) h p
           in (h', Some out)))"

definition MetricsServerConfig_DeepCopy ::
  "'p MetricsServerConfig heap \<Rightarrow> ptr option
     \<Rightarrow> 'p MetricsServerConfig heap \<times> ptr option" where
  "MetricsServerConfig_DeepCopy h inp =
     (case inp of
        None \<Rightarrow> (h, None)
      | Some p \<Rightarrow>
          (let (h', out) = new_copy (MetricsServerConfig_DeepCopyInto) h p
           in (h', Some out)))"

definition OVNKubernetesConfig_DeepCopy ::
  "'p OVNKubernetesConfig heap \<Rightarrow> ptr option
     \<Rightarrow> 'p OVNKubernetesConfig heap \<times> ptr option" where
  "OVNKubernetesConfig_DeepCopy h inp =
     (case inp of
        None \<Rightarrow> (h, None)
      | Some p \<Rightarrow>
          (let (h', out) = new_copy (OVNKubernetesConfig_DeepCopyInto) h p
           in (h', Some out)))"

definition QuickFilter_DeepCopy ::
  "'p QuickFilter heap \<Rightarrow> ptr option
     \<Rightarrow> 'p QuickFilter heap \<times> ptr option" where
  "QuickFilter_DeepCopy h inp =
     (case inp of
        None \<Rightarrow> (h, None)
      | Some p \<Rightarrow>
          (let (h', out) = new_copy (QuickFilter_DeepCopyInto) h p
           in (h', Some out)))"

definition ServerTLS_DeepCopy ::
  "'p ServerTLS heap \<Rightarrow> ptr option
     \<Rightarrow> 'p ServerTLS heap \<times> ptr option" where
  "ServerTLS_DeepCopy h inp =
     (case inp of
        None \<Rightarrow> (h, None)
      | Some p \<Rightarrow>
          (let (h', out) = new_copy (ServerTLS_DeepCopyInto) h p
           in (h', Some out)))"

text \<open>
  A \<^verbatim>\<open>runtime.Object\<close> is an interface value: the nil interface, or a pointer together with
  its type. An interface that holds a nil pointer is not the nil interface, which is why
  \<^verbatim>\<open>DeepCopyObject\<close> tests the pointer before it wraps it.
\<close>

datatype Object = NilObject | FlowCollectorObject "ptr option" | FlowCollectorListObject "ptr option"

definition FlowCollector_DeepCopyObject ::
  "('om, 'lm, 'rr, 'ms, 'cd) K8s \<Rightarrow> ('p, 'om, 'rr, 'ms, 'cd) FlowCollector heap \<Rightarrow> ptr option
     \<Rightarrow> ('p, 'om, 'rr, 'ms, 'cd) FlowCollector heap \<times> Object" where
  "FlowCollector_DeepCopyObject k h inp =
     (case FlowCollector_DeepCopy k h inp of
        (h', Some c) \<Rightarrow> (h', FlowCollectorObject (Some c))
      | (h', None) \<Rightarrow> (h', NilObject))"

definition FlowCollectorList_DeepCopyObject ::
  "('om, 'lm, 'rr, 'ms, 'cd) K8s \<Rightarrow> ('p, 'om, 'lm, 'rr, 'ms, 'cd) FlowCollectorList heap
     \<Rightarrow> ptr option \<Rightarrow> ('p, 'om, 'lm, 'rr, 'ms, 'cd) FlowCollectorList heap \<times> Object" where
  "FlowCollectorList_DeepCopyObject k h inp =
     (case FlowCollectorList_DeepCopy k h inp of
        (h', Some c) \<Rightarrow> (h', FlowCollectorListObject (Some c))
      | (h', None) \<Rightarrow> (h', NilObject))"

text \<open>
  What is asked of a \<^verbatim>\<open>DeepCopy\<close>: nil for the nil receiver, with the heap as it was; for
  a receiver in the heap, a pointer to a new cell (the address past the old heap, so not
  nil and not an address any older pointer holds) whose struct equals the receiver's,
  with every old cell as it was.
\<close>

definition DeepCopy_spec :: "('a heap \<Rightarrow> ptr option \<Rightarrow> 'a heap \<times> ptr option) \<Rightarrow> bool" where
  "DeepCopy_spec dc \<longleftrightarrow>
     (\<forall>h. dc h None = (h, None)) \<and>
     (\<forall>h p. p < length h \<longrightarrow> dc h (Some p) = (h @ [h ! p], Some (length h)))"

text \<open>What is asked of the library's \<^verbatim>\<open>DeepCopyInto\<close> methods: the copy equals the original.\<close>

definition K8s_ok :: "('om, 'lm, 'rr, 'ms, 'cd) K8s \<Rightarrow> bool" where
  "K8s_ok k \<longleftrightarrow>
     (\<forall>x. ObjectMeta_DeepCopyInto k x = x) \<and>
     (\<forall>x. ListMeta_DeepCopyInto k x = x) \<and>
     (\<forall>x. ResourceRequirements_DeepCopyInto k x = x) \<and>
     (\<forall>x. MetricSpec_DeepCopyInto k x = x) \<and>
     (\<forall>x. Condition_DeepCopyInto k x = x)"

subsection \<open>A FlowCollector to run the copies on\<close>

text \<open>
  With strings for the library's structs and for the fields outside the copy functions,
  a resource with a sampling pointer, interface slices, maps, a quick filter and a slice
  of exporters with a nil element; and the library functions for such plain values.
\<close>

definition plainK8s :: "(string, string, string, string, string) K8s" where
  "plainK8s = \<lparr> ObjectMeta_DeepCopyInto = (\<lambda>x. x), ListMeta_DeepCopyInto = (\<lambda>x. x),
     ResourceRequirements_DeepCopyInto = (\<lambda>x. x), MetricSpec_DeepCopyInto = (\<lambda>x. x),
     Condition_DeepCopyInto = (\<lambda>x. x) \<rparr>"

definition sampleClientTLS :: "string ClientTLS" where
  "sampleClientTLS = \<lparr> ClientTLS_CACert = \<lparr> CertificateReference_rest = ''ca'' \<rparr>,
     ClientTLS_UserCert = \<lparr> CertificateReference_rest = ''user'' \<rparr>,
     ClientTLS_rest = ''enable'' \<rparr>"

definition sampleHPA :: "(string, string) FlowCollectorHPA" where
  "sampleHPA = \<lparr> HPA_MinReplicas = Some 1, HPA_Metrics = Some [''cpu''],
     HPA_rest = ''max 3'' \<rparr>"

definition sampleSpec :: "(string, string, string) FlowCollectorSpec" where
  "sampleSpec = \<lparr>
     Spec_Agent = \<lparr>
       Agent_IPFIX = \<lparr>
         IPFIX_ClusterNetworkOperator = \<lparr> ClusterNetworkOperatorConfig_rest = ''cno'' \<rparr>,
         IPFIX_OVNKubernetes = \<lparr> OVNKubernetesConfig_rest = ''ovn'' \<rparr>,
         IPFIX_rest = ''400'' \<rparr>,
       Agent_EBPF = \<lparr>
         EBPF_Resources = ''800Mi'', EBPF_Sampling = Some 50,
         EBPF_Interfaces = Some [''eth0'', ''eth1''], EBPF_ExcludeInterfaces = Some [''lo''],
         EBPF_Env = Some [''LOG_LEVEL'' \<mapsto> ''info''], EBPF_rest = ''privileged'' \<rparr>,
       Agent_rest = ''EBPF'' \<rparr>,
     Spec_Processor = \<lparr>
       FLP_Metrics = \<lparr>
         FLPMetrics_Server = \<lparr>
           MetricsServerConfig_TLS = \<lparr>
             ServerTLS_Provided = Some \<lparr> CertificateReference_rest = ''metrics'' \<rparr>,
             ServerTLS_rest = ''PROVIDED'' \<rparr>,
           MetricsServerConfig_rest = ''9102'' \<rparr>,
         FLPMetrics_IgnoreTags = Some [''egress'', ''packets''],
         FLPMetrics_rest = [] \<rparr>,
       FLP_Resources = ''800Mi'', FLP_KafkaConsumerAutoscaler = sampleHPA,
       FLP_Env = None, FLP_rest = ''2055'' \<rparr>,
     Spec_Loki = \<lparr>
       Loki_BatchWait = ''1s'', Loki_Timeout = ''10s'', Loki_MinBackoff = ''1s'',
       Loki_MaxBackoff = ''5s'', Loki_StaticLabels = Some [''app'' \<mapsto> ''netobserv''],
       Loki_TLS = sampleClientTLS, Loki_rest = ''http://loki:3100/'' \<rparr>,
     Spec_ConsolePlugin = \<lparr>
       ConsolePlugin_Resources = ''100Mi'', ConsolePlugin_Autoscaler = sampleHPA,
       ConsolePlugin_PortNaming = \<lparr>
         PortConfig_PortNames = Some [''3100'' \<mapsto> ''loki''], PortConfig_rest = ''enable'' \<rparr>,
       ConsolePlugin_QuickFilters = Some [\<lparr>
         QuickFilter_Filter = Some [''src_namespace'' \<mapsto> ''openshift-''],
         QuickFilter_rest = ''Applications'' \<rparr>],
       ConsolePlugin_rest = ''9001'' \<rparr>,
     Spec_Kafka = \<lparr> Kafka_TLS = sampleClientTLS, Kafka_rest = ''kafka:9092'' \<rparr>,
     Spec_Exporters = Some [None,
       Some \<lparr> Exporter_Kafka = \<lparr> Kafka_TLS = sampleClientTLS, Kafka_rest = ''export:9092'' \<rparr>,
         Exporter_rest = ''KAFKA'' \<rparr>],
     Spec_rest = ''netobserv'' \<rparr>"

definition sampleFlowCollector :: "(string, string, string, string, string) FlowCollector" where
  "sampleFlowCollector = \<lparr>
     FlowCollector_TypeMeta = ''FlowCollector'', FlowCollector_ObjectMeta = ''cluster'',
     FlowCollector_Spec = sampleSpec,
     FlowCollector_Status = \<lparr> Status_Conditions = Some [''Ready''], Status_rest = ''ns'' \<rparr>,
     FlowCollector_rest = [] \<rparr>"

section \<open>The pipeline stages that read the configuration\<close>

text \<open>
  The stages that consume \<^verbatim>\<open>DeduperFCExpiry\<close>, \<^verbatim>\<open>ExporterBufferLength\<close>,
  \<^verbatim>\<open>GRPCMessageMaxFlows\<close> and \<^verbatim>\<open>CacheMaxFlows\<close> are in other packages of the agent;
  config.go declares the options and documents them. The definitions of this section
  follow the specification (sections 3, 4.3, 4.4 and 4.5) and those field comments.
  Times are integers (nanoseconds), durations are read with \<open>sint\<close>.
\<close>

subsection \<open>Deduplicator expiry\<close>

text \<open>
  Modelled from the spec: the expiry window of the deduplicator, which the agent computes
  outside config.go. Section 4.3: "expiry window (default: twice the cache
  active-timeout)"; the comment of the field \<^verbatim>\<open>DeduperFCExpiry\<close>: "If the value is not
  set, it will default to 2 * CacheActiveTimeout". The product is Go's, on \<^verbatim>\<open>int64\<close>.
\<close>

definition deduperExpiry :: "Config \<Rightarrow> Duration" where
  "deduperExpiry cfg =
     (if DeduperFCExpiry cfg = 0 then 2 * CacheActiveTimeout cfg else DeduperFCExpiry cfg)"

record 'i DedupEntry =
  owner :: 'i
  dedup_last_seen :: int

text \<open>
  Modelled from the spec: the deduplicator's background sweep, which is not in config.go.
  Section 4.3: it "removes DedupEntry records whose last-seen age exceeds the expiry
  window".
\<close>

definition dedupSweep :: "Config \<Rightarrow> int \<Rightarrow> ('k \<times> 'i DedupEntry) list \<Rightarrow> ('k \<times> 'i DedupEntry) list"
  where
  "dedupSweep cfg now tbl =
     filter (\<lambda>(k, e). \<not> sint (deduperExpiry cfg) < now - dedup_last_seen e) tbl"

subsection \<open>Exporter queue\<close>

text \<open>
  Modelled from the spec: the capacity of the exporter's input queue, which the agent
  computes outside config.go. Section 4.5: "size = buffer length, or a dedicated
  export-buffer length if configured larger"; the comment of the field
  \<^verbatim>\<open>ExporterBufferLength\<close>: "If unset, its value is the same as the BUFFERS_LENGTH
  property", an unset \<^verbatim>\<open>int\<close> option being 0.
\<close>

definition exporterQueueCapacity :: "Config \<Rightarrow> go_int" where
  "exporterQueueCapacity cfg =
     (let ebl = (if ExporterBufferLength cfg = 0 then BuffersLength cfg
                 else ExporterBufferLength cfg)
      in if sint (BuffersLength cfg) < sint ebl then ebl else BuffersLength cfg)"

subsection \<open>Messages of the gRPC backend\<close>



subsection \<open>Accounting cache\<close>

text \<open>
  Modelled from the spec: the data of the accounting cache (section 3). An AccountedFlow
  holds the counters and the first-seen and last-seen times of one FlowKey; its flags and
  interface pairs do not bear on the bounds of the cache and are left out. The FlowKey is
  the type parameter \<open>'k\<close>. The cache owns its live entries; the entries it evicts go to
  the export queue, and an entry that finds the queue full is counted as dropped.
\<close>

record AccountedFlow =
  flow_bytes :: nat
  flow_packets :: nat
  first_seen :: int
  last_seen :: int

record 'k RawEvent =
  ev_key :: 'k
  ev_time :: int
  ev_bytes :: nat
  ev_packets :: nat

record 'k AccountingCache =
  live :: "('k \<times> AccountedFlow) list"
  export_queue :: "('k \<times> AccountedFlow) list"
  export_drops :: nat

definition emptyCache :: "'k AccountingCache" where
  "emptyCache = \<lparr> live = [], export_queue = [], export_drops = 0 \<rparr>"

definition newFlow :: "'k RawEvent \<Rightarrow> AccountedFlow" where
  "newFlow ev = \<lparr> flow_bytes = ev_bytes ev, flow_packets = ev_packets ev,
     first_seen = ev_time ev, last_seen = ev_time ev \<rparr>"

definition mergeFlow :: "AccountedFlow \<Rightarrow> 'k RawEvent \<Rightarrow> AccountedFlow" where
  "mergeFlow f ev = f\<lparr> flow_bytes := flow_bytes f + ev_bytes ev,
     flow_packets := flow_packets f + ev_packets ev, last_seen := ev_time ev \<rparr>"

text \<open>
  Modelled from the spec: the hand-over of an evicted entry, code of the flow package.
  Section 4.4: "Evicted entries are pushed onto the export queue; if that queue is full,
  the entry is dropped and a drop counter is incremented".
\<close>

definition enqueue :: "Config \<Rightarrow> 'k \<times> AccountedFlow \<Rightarrow> 'k AccountingCache \<Rightarrow> 'k AccountingCache"
  where
  "enqueue cfg e c =
     (if int (length (export_queue c)) < sint (exporterQueueCapacity cfg)
      then c\<lparr> export_queue := export_queue c @ [e] \<rparr>
      else c\<lparr> export_drops := Suc (export_drops c) \<rparr>)"

text \<open>
  Modelled from the spec: "the single oldest live entry (by first-seen)" of section 4.4;
  of two entries first seen at the same time, the one inserted earlier.
\<close>

fun oldest :: "('k \<times> AccountedFlow) list \<Rightarrow> ('k \<times> AccountedFlow) option" where
  "oldest [] = None"
| "oldest (e # es) =
     (case oldest es of
        None \<Rightarrow> Some e
      | Some e' \<Rightarrow> if first_seen (snd e) \<le> first_seen (snd e') then Some e else Some e')"

text \<open>
  Modelled from the spec: \<^verbatim>\<open>Admit\<close> of section 4.4, code of the flow package. It "looks up
  AccountedFlow by FlowKey; if absent, creates one (first-seen = now) - if this insertion
  would exceed the capacity bound, the single oldest live entry (by first-seen) is evicted
  immediately to the Exporter Fan-out before the insert proceeds; if present, merges
  counters/flags/interface-pairs into the existing entry and updates last-seen".
\<close>

definition Admit :: "Config \<Rightarrow> 'k RawEvent \<Rightarrow> 'k AccountingCache \<Rightarrow> 'k AccountingCache" where
  "Admit cfg ev c =
     (case map_of (live c) (ev_key ev) of
        Some f \<Rightarrow>
          c\<lparr> live := map (\<lambda>(k, g). if k = ev_key ev then (k, mergeFlow g ev) else (k, g))
                       (live c) \<rparr>
      | None \<Rightarrow>
          (let c1 = (if sint (CacheMaxFlows cfg) < int (length (live c)) + 1
                     then (case oldest (live c) of
                             None \<Rightarrow> c
                           | Some e \<Rightarrow> enqueue cfg e (c\<lparr> live := remove1 e (live c) \<rparr>))
                     else c)
           in c1\<lparr> live := live c1 @ [(ev_key ev, newFlow ev)] \<rparr>))"

text \<open>
  Modelled from the spec: the background sweep of section 4.4, code of the flow package.
  It "evicts every entry whose (now - first-seen) >= active-timeout, regardless of recent
  activity".
\<close>

definition Sweep :: "Config \<Rightarrow> int \<Rightarrow> 'k AccountingCache \<Rightarrow> 'k AccountingCache" where
  "Sweep cfg now c =
     (let due = (\<lambda>e. sint (CacheActiveTimeout cfg) \<le> now - first_seen (snd e))
      in fold (enqueue cfg) (filter due (live c))
           (c\<lparr> live := filter (\<lambda>e. \<not> due e) (live c) \<rparr>))"

text \<open>
  Modelled from the spec: what reaches the cache, one input at a time (section 5: the
  cache is a single worker over its input queue and a periodic task): an event, a tick
  of the sweep, or the exporter taking the entry at the head of the export queue. The
  states the cache goes through are the observation points.
\<close>

datatype 'k CacheInput = Event "'k RawEvent" | Tick int | Exported

fun cacheStep :: "Config \<Rightarrow> 'k CacheInput \<Rightarrow> 'k AccountingCache \<Rightarrow> 'k AccountingCache" where
  "cacheStep cfg (Event ev) c = Admit cfg ev c"
| "cacheStep cfg (Tick now) c = Sweep cfg now c"
| "cacheStep cfg Exported c = c\<lparr> export_queue := tl (export_queue c) \<rparr>"

fun cacheStates :: "Config \<Rightarrow> 'k AccountingCache \<Rightarrow> 'k CacheInput list \<Rightarrow> 'k AccountingCache list"
  where
  "cacheStates cfg c [] = [c]"
| "cacheStates cfg c (i # is) = c # cacheStates cfg (cacheStep cfg i c) is"

subsection \<open>A small cache to run\<close>

text \<open>
  A configuration with room for two flows, a cache holding the flows of keys 1 and 2,
  and events of the keys 1, 2 and 3.
\<close>

definition smallCacheConfig :: Config where
  "smallCacheConfig = zeroConfig\<lparr> BuffersLength := 50, CacheMaxFlows := 2,
     CacheActiveTimeout := 5000000000 \<rparr>"

definition eventAt :: "nat \<Rightarrow> int \<Rightarrow> nat RawEvent" where
  "eventAt k t = \<lparr> ev_key = k, ev_time = t, ev_bytes = 100, ev_packets = 1 \<rparr>"

definition fullCache :: "nat AccountingCache" where
  "fullCache = \<lparr> live = [(1, newFlow (eventAt 1 10)), (2, newFlow (eventAt 2 20))],
     export_queue = [], export_drops = 0 \<rparr>"

section \<open>Deprecated configuration aliases\<close>

text \<open>
  C1. After \<^verbatim>\<open>manageDeprecatedConfigs\<close> the target port is the first populated legacy
  port alias in the fixed order FlowsTargetPort, PCAServerPort: a non-zero FlowsTargetPort
  becomes the TargetPort; otherwise a non-zero PCAServerPort does. With FlowsTargetPort 0,
  PCAServerPort 9999 and TargetPort unset, the resolved port is 9999.
\<close>

theorem manageDeprecatedConfigs_port:
  "(FlowsTargetPort cfg \<noteq> 0 \<longrightarrow>
      TargetPort (manageDeprecatedConfigs cfg) = FlowsTargetPort cfg) \<and>
   (FlowsTargetPort cfg = 0 \<and> PCAServerPort cfg \<noteq> 0 \<longrightarrow>
      TargetPort (manageDeprecatedConfigs cfg) = PCAServerPort cfg)"
  by (simp add: manageDeprecatedConfigs_def Let_def)

theorem manageDeprecatedConfigs_port_witness:
  "TargetPort (manageDeprecatedConfigs (zeroConfig\<lparr>PCAServerPort := 9999\<rparr>)) = 9999 \<and>
   TargetPort (manageDeprecatedConfigs
     (zeroConfig\<lparr>FlowsTargetPort := 2055, PCAServerPort := 9999\<rparr>)) = 2055"
  using manageDeprecatedConfigs_port [of "zeroConfig\<lparr>PCAServerPort := 9999\<rparr>"]
    manageDeprecatedConfigs_port
      [of "zeroConfig\<lparr>FlowsTargetPort := 2055, PCAServerPort := 9999\<rparr>"]
  by (simp add: zeroConfig_def)

text \<open>
  C2. After \<^verbatim>\<open>manageDeprecatedConfigs\<close> the target host is the legacy alias
  FlowsTargetHost whenever that alias is a non-empty string, whatever the primary
  TargetHost held, and the TargetHost is unchanged when FlowsTargetHost is empty. With
  FlowsTargetHost "A" and TargetHost unset, the resolved host is "A".
\<close>

theorem manageDeprecatedConfigs_host:
  "(FlowsTargetHost cfg \<noteq> [] \<longrightarrow>
      TargetHost (manageDeprecatedConfigs cfg) = FlowsTargetHost cfg) \<and>
   (FlowsTargetHost cfg = [] \<longrightarrow>
      TargetHost (manageDeprecatedConfigs cfg) = TargetHost cfg)"
  by (simp add: manageDeprecatedConfigs_def Let_def)

theorem manageDeprecatedConfigs_host_witness:
  "TargetHost (manageDeprecatedConfigs (zeroConfig\<lparr>FlowsTargetHost := ''A''\<rparr>)) = ''A'' \<and>
   TargetHost (manageDeprecatedConfigs
     (zeroConfig\<lparr>TargetHost := ''B'', FlowsTargetHost := ''A''\<rparr>)) = ''A'' \<and>
   TargetHost (manageDeprecatedConfigs (zeroConfig\<lparr>TargetHost := ''B''\<rparr>)) = ''B''"
  using manageDeprecatedConfigs_host [of "zeroConfig\<lparr>FlowsTargetHost := ''A''\<rparr>"]
    manageDeprecatedConfigs_host
      [of "zeroConfig\<lparr>TargetHost := ''B'', FlowsTargetHost := ''A''\<rparr>"]
    manageDeprecatedConfigs_host [of "zeroConfig\<lparr>TargetHost := ''B''\<rparr>"]
  by (simp add: zeroConfig_def)

text \<open>
  C3, as the specification states it: with FlowsTargetPort 0, PCAServerPort non-zero and
  the primary TargetPort already set, the primary TargetPort would survive. It does not:
  with TargetPort 8080 and PCAServerPort 9999 the resolved port is 9999.
\<close>

theorem manageDeprecatedConfigs_primary_port_counterexample:
  "FlowsTargetPort (zeroConfig\<lparr>TargetPort := 8080, PCAServerPort := 9999\<rparr>) = 0 \<and>
   PCAServerPort (zeroConfig\<lparr>TargetPort := 8080, PCAServerPort := 9999\<rparr>) \<noteq> 0 \<and>
   TargetPort (zeroConfig\<lparr>TargetPort := 8080, PCAServerPort := 9999\<rparr>) \<noteq> 0 \<and>
   TargetPort (manageDeprecatedConfigs
       (zeroConfig\<lparr>TargetPort := 8080, PCAServerPort := 9999\<rparr>))
     \<noteq> TargetPort (zeroConfig\<lparr>TargetPort := 8080, PCAServerPort := 9999\<rparr>)"
  by (simp add: manageDeprecatedConfigs_def Let_def zeroConfig_def)

text \<open>
  C3, amended. The fallback to PCAServerPort does not look at the primary port: with
  FlowsTargetPort 0 and PCAServerPort non-zero the resolved port is PCAServerPort, whether
  or not TargetPort was set. The primary TargetPort is kept when both legacy port aliases
  are zero.
\<close>

theorem manageDeprecatedConfigs_fallback_port:
  "(FlowsTargetPort cfg = 0 \<and> PCAServerPort cfg \<noteq> 0 \<longrightarrow>
      TargetPort (manageDeprecatedConfigs cfg) = PCAServerPort cfg) \<and>
   (FlowsTargetPort cfg = 0 \<and> PCAServerPort cfg = 0 \<longrightarrow>
      TargetPort (manageDeprecatedConfigs cfg) = TargetPort cfg)"
  by (simp add: manageDeprecatedConfigs_def Let_def)

theorem manageDeprecatedConfigs_fallback_port_witness:
  "TargetPort (manageDeprecatedConfigs
     (zeroConfig\<lparr>TargetPort := 8080, PCAServerPort := 9999\<rparr>)) = 9999 \<and>
   TargetPort (manageDeprecatedConfigs (zeroConfig\<lparr>TargetPort := 8080\<rparr>)) = 8080"
  using manageDeprecatedConfigs_fallback_port
      [of "zeroConfig\<lparr>TargetPort := 8080, PCAServerPort := 9999\<rparr>"]
    manageDeprecatedConfigs_fallback_port [of "zeroConfig\<lparr>TargetPort := 8080\<rparr>"]
  by (simp add: zeroConfig_def)

text \<open>
  C8. \<^verbatim>\<open>manageDeprecatedConfigs\<close> changes at most the fields TargetHost and TargetPort:
  the result is the argument with those two fields replaced, so every other field is the
  one of the argument; the deprecated fields FlowsTargetHost, FlowsTargetPort and
  PCAServerPort are among them.
\<close>

theorem manageDeprecatedConfigs_frame:
  "manageDeprecatedConfigs cfg =
     cfg\<lparr>TargetHost := TargetHost (manageDeprecatedConfigs cfg),
         TargetPort := TargetPort (manageDeprecatedConfigs cfg)\<rparr> \<and>
   FlowsTargetHost (manageDeprecatedConfigs cfg) = FlowsTargetHost cfg \<and>
   FlowsTargetPort (manageDeprecatedConfigs cfg) = FlowsTargetPort cfg \<and>
   PCAServerPort (manageDeprecatedConfigs cfg) = PCAServerPort cfg"
  by (simp add: manageDeprecatedConfigs_def Let_def)

text \<open>
  C9. \<^verbatim>\<open>manageDeprecatedConfigs\<close> is idempotent: a second call on the result of the first
  returns that result.
\<close>

theorem manageDeprecatedConfigs_idem:
  "manageDeprecatedConfigs (manageDeprecatedConfigs cfg) = manageDeprecatedConfigs cfg"
  by (simp add: manageDeprecatedConfigs_def Let_def)

section \<open>The deep copies return equal structs\<close>

lemma copy_same_length: "length dst = length src \<Longrightarrow> copy dst src = src"
  by (simp add: copy_def)

lemma copy_strings_id: "copy_strings xs = xs"
  by (simp add: copy_strings_def make_strings_def copy_same_length)

lemma copy_map_id: "copy_map m = m"
  by (simp add: copy_map_def)

lemma map_fixed: "(\<And>x. f x = x) \<Longrightarrow> map f xs = xs"
  by (induction xs) simp_all

lemma rewrap_pointer: "(case e of None \<Rightarrow> None | Some v \<Rightarrow> Some v) = e"
  by (cases e) simp_all

lemma K8s_okD:
  assumes "K8s_ok k"
  shows "ObjectMeta_DeepCopyInto k om = om" and "ListMeta_DeepCopyInto k lm = lm"
    and "ResourceRequirements_DeepCopyInto k rr = rr" and "MetricSpec_DeepCopyInto k ms = ms"
    and "Condition_DeepCopyInto k cd = cd"
  using assms by (simp_all add: K8s_ok_def)

text \<open>Each \<^verbatim>\<open>DeepCopyInto\<close> writes a struct equal to its receiver, the inner structs first.\<close>

lemma CertificateReference_DeepCopyInto_id: "CertificateReference_DeepCopyInto x = x"
  by (simp add: CertificateReference_DeepCopyInto_def)

lemma ClientTLS_DeepCopyInto_id: "ClientTLS_DeepCopyInto x = x"
  by (simp add: ClientTLS_DeepCopyInto_def)

lemma ClusterNetworkOperatorConfig_DeepCopyInto_id: "ClusterNetworkOperatorConfig_DeepCopyInto x = x"
  by (simp add: ClusterNetworkOperatorConfig_DeepCopyInto_def)

lemma ConsolePluginPortConfig_DeepCopyInto_id: "ConsolePluginPortConfig_DeepCopyInto x = x"
  by (simp add: ConsolePluginPortConfig_DeepCopyInto_def copy_map_id split: option.split)

lemma ServerTLS_DeepCopyInto_id: "ServerTLS_DeepCopyInto x = x"
  by (simp add: ServerTLS_DeepCopyInto_def split: option.split)

lemma MetricsServerConfig_DeepCopyInto_id: "MetricsServerConfig_DeepCopyInto x = x"
  by (simp add: MetricsServerConfig_DeepCopyInto_def ServerTLS_DeepCopyInto_id)

lemma FLPMetrics_DeepCopyInto_id: "FLPMetrics_DeepCopyInto x = x"
  by (simp add: FLPMetrics_DeepCopyInto_def copy_strings_id
      MetricsServerConfig_DeepCopyInto_id split: option.split)

lemma OVNKubernetesConfig_DeepCopyInto_id: "OVNKubernetesConfig_DeepCopyInto x = x"
  by (simp add: OVNKubernetesConfig_DeepCopyInto_def)

lemma QuickFilter_DeepCopyInto_id: "QuickFilter_DeepCopyInto x = x"
  by (simp add: QuickFilter_DeepCopyInto_def copy_map_id split: option.split)

lemma FlowCollectorIPFIX_DeepCopyInto_id: "FlowCollectorIPFIX_DeepCopyInto x = x"
  by (simp add: FlowCollectorIPFIX_DeepCopyInto_def)

lemma FlowCollectorEBPF_DeepCopyInto_id:
  assumes ok: "K8s_ok k"
  shows "FlowCollectorEBPF_DeepCopyInto k x = x"
  by (simp add: FlowCollectorEBPF_DeepCopyInto_def copy_strings_id copy_map_id
      K8s_okD [OF ok] split: option.split)

lemma FlowCollectorAgent_DeepCopyInto_id:
  assumes ok: "K8s_ok k"
  shows "FlowCollectorAgent_DeepCopyInto k x = x"
  by (simp add: FlowCollectorAgent_DeepCopyInto_def K8s_okD [OF ok]
      FlowCollectorEBPF_DeepCopyInto_id [OF ok])

lemma FlowCollectorHPA_DeepCopyInto_id:
  assumes ok: "K8s_ok k"
  shows "FlowCollectorHPA_DeepCopyInto k x = x"
  by (simp add: FlowCollectorHPA_DeepCopyInto_def map_fixed K8s_okD [OF ok]
      split: option.split)

lemma FlowCollectorConsolePlugin_DeepCopyInto_id:
  assumes ok: "K8s_ok k"
  shows "FlowCollectorConsolePlugin_DeepCopyInto k x = x"
  by (simp add: FlowCollectorConsolePlugin_DeepCopyInto_def map_fixed K8s_okD [OF ok]
      FlowCollectorHPA_DeepCopyInto_id [OF ok] ConsolePluginPortConfig_DeepCopyInto_id
      QuickFilter_DeepCopyInto_id split: option.split)

lemma FlowCollectorKafka_DeepCopyInto_id: "FlowCollectorKafka_DeepCopyInto x = x"
  by (simp add: FlowCollectorKafka_DeepCopyInto_def)

lemma FlowCollectorExporter_DeepCopyInto_id: "FlowCollectorExporter_DeepCopyInto x = x"
  by (simp add: FlowCollectorExporter_DeepCopyInto_def)

lemma FlowCollectorFLP_DeepCopyInto_id:
  assumes ok: "K8s_ok k"
  shows "FlowCollectorFLP_DeepCopyInto k x = x"
  by (simp add: FlowCollectorFLP_DeepCopyInto_def copy_map_id K8s_okD [OF ok]
      FLPMetrics_DeepCopyInto_id FlowCollectorHPA_DeepCopyInto_id [OF ok]
      split: option.split)

lemma FlowCollectorLoki_DeepCopyInto_id: "FlowCollectorLoki_DeepCopyInto x = x"
  by (simp add: FlowCollectorLoki_DeepCopyInto_def copy_map_id split: option.split)

lemma FlowCollectorSpec_DeepCopyInto_id:
  assumes ok: "K8s_ok k"
  shows "FlowCollectorSpec_DeepCopyInto k x = x"
  by (simp add: FlowCollectorSpec_DeepCopyInto_def map_fixed rewrap_pointer K8s_okD [OF ok]
      FlowCollectorAgent_DeepCopyInto_id [OF ok] FlowCollectorFLP_DeepCopyInto_id [OF ok]
      FlowCollectorLoki_DeepCopyInto_id FlowCollectorConsolePlugin_DeepCopyInto_id [OF ok]
      split: option.split)

lemma FlowCollectorStatus_DeepCopyInto_id:
  assumes ok: "K8s_ok k"
  shows "FlowCollectorStatus_DeepCopyInto k x = x"
  by (simp add: FlowCollectorStatus_DeepCopyInto_def map_fixed K8s_okD [OF ok]
      split: option.split)

lemma FlowCollector_DeepCopyInto_id:
  assumes ok: "K8s_ok k"
  shows "FlowCollector_DeepCopyInto k x = x"
  by (simp add: FlowCollector_DeepCopyInto_def K8s_okD [OF ok]
      FlowCollectorSpec_DeepCopyInto_id [OF ok] FlowCollectorStatus_DeepCopyInto_id [OF ok])

lemma FlowCollectorList_DeepCopyInto_id:
  assumes ok: "K8s_ok k"
  shows "FlowCollectorList_DeepCopyInto k x = x"
  by (simp add: FlowCollectorList_DeepCopyInto_def map_fixed K8s_okD [OF ok]
      FlowCollector_DeepCopyInto_id [OF ok] split: option.split)

text \<open>So each \<^verbatim>\<open>DeepCopy\<close> meets \<open>DeepCopy_spec\<close>.\<close>

lemma DeepCopy_specI:
  assumes "\<And>x. into x = x"
    and "\<And>h inp. dc h inp =
      (case inp of None \<Rightarrow> (h, None)
       | Some p \<Rightarrow> (let (h', out) = new_copy into h p in (h', Some out)))"
  shows "DeepCopy_spec dc"
  by (simp add: DeepCopy_spec_def assms new_copy_def)

lemma CertificateReference_DeepCopy_spec: "DeepCopy_spec CertificateReference_DeepCopy"
  by (rule DeepCopy_specI [where into = CertificateReference_DeepCopyInto])
    (simp_all add: CertificateReference_DeepCopyInto_id CertificateReference_DeepCopy_def)

lemma ClientTLS_DeepCopy_spec: "DeepCopy_spec ClientTLS_DeepCopy"
  by (rule DeepCopy_specI [where into = ClientTLS_DeepCopyInto])
    (simp_all add: ClientTLS_DeepCopyInto_id ClientTLS_DeepCopy_def)

lemma ClusterNetworkOperatorConfig_DeepCopy_spec: "DeepCopy_spec ClusterNetworkOperatorConfig_DeepCopy"
  by (rule DeepCopy_specI [where into = ClusterNetworkOperatorConfig_DeepCopyInto])
    (simp_all add: ClusterNetworkOperatorConfig_DeepCopyInto_id ClusterNetworkOperatorConfig_DeepCopy_def)

lemma ConsolePluginPortConfig_DeepCopy_spec: "DeepCopy_spec ConsolePluginPortConfig_DeepCopy"
  by (rule DeepCopy_specI [where into = ConsolePluginPortConfig_DeepCopyInto])
    (simp_all add: ConsolePluginPortConfig_DeepCopyInto_id ConsolePluginPortConfig_DeepCopy_def)

lemma FLPMetrics_DeepCopy_spec: "DeepCopy_spec FLPMetrics_DeepCopy"
  by (rule DeepCopy_specI [where into = FLPMetrics_DeepCopyInto])
    (simp_all add: FLPMetrics_DeepCopyInto_id FLPMetrics_DeepCopy_def)

lemma FlowCollector_DeepCopy_spec: "K8s_ok k \<Longrightarrow> DeepCopy_spec (FlowCollector_DeepCopy k)"
  by (rule DeepCopy_specI [where into = "FlowCollector_DeepCopyInto k"])
    (simp_all add: FlowCollector_DeepCopyInto_id FlowCollector_DeepCopy_def)

lemma FlowCollectorAgent_DeepCopy_spec: "K8s_ok k \<Longrightarrow> DeepCopy_spec (FlowCollectorAgent_DeepCopy k)"
  by (rule DeepCopy_specI [where into = "FlowCollectorAgent_DeepCopyInto k"])
    (simp_all add: FlowCollectorAgent_DeepCopyInto_id FlowCollectorAgent_DeepCopy_def)

lemma FlowCollectorConsolePlugin_DeepCopy_spec: "K8s_ok k \<Longrightarrow> DeepCopy_spec (FlowCollectorConsolePlugin_DeepCopy k)"
  by (rule DeepCopy_specI [where into = "FlowCollectorConsolePlugin_DeepCopyInto k"])
    (simp_all add: FlowCollectorConsolePlugin_DeepCopyInto_id FlowCollectorConsolePlugin_DeepCopy_def)

lemma FlowCollectorEBPF_DeepCopy_spec: "K8s_ok k \<Longrightarrow> DeepCopy_spec (FlowCollectorEBPF_DeepCopy k)"
  by (rule DeepCopy_specI [where into = "FlowCollectorEBPF_DeepCopyInto k"])
    (simp_all add: FlowCollectorEBPF_DeepCopyInto_id FlowCollectorEBPF_DeepCopy_def)

lemma FlowCollectorExporter_DeepCopy_spec: "DeepCopy_spec FlowCollectorExporter_DeepCopy"
  by (rule DeepCopy_specI [where into = FlowCollectorExporter_DeepCopyInto])
    (simp_all add: FlowCollectorExporter_DeepCopyInto_id FlowCollectorExporter_DeepCopy_def)

lemma FlowCollectorFLP_DeepCopy_spec: "K8s_ok k \<Longrightarrow> DeepCopy_spec (FlowCollectorFLP_DeepCopy k)"
  by (rule DeepCopy_specI [where into = "FlowCollectorFLP_DeepCopyInto k"])
    (simp_all add: FlowCollectorFLP_DeepCopyInto_id FlowCollectorFLP_DeepCopy_def)

lemma FlowCollectorHPA_DeepCopy_spec: "K8s_ok k \<Longrightarrow> DeepCopy_spec (FlowCollectorHPA_DeepCopy k)"
  by (rule DeepCopy_specI [where into = "FlowCollectorHPA_DeepCopyInto k"])
    (simp_all add: FlowCollectorHPA_DeepCopyInto_id FlowCollectorHPA_DeepCopy_def)

lemma FlowCollectorIPFIX_DeepCopy_spec: "DeepCopy_spec FlowCollectorIPFIX_DeepCopy"
  by (rule DeepCopy_specI [where into = FlowCollectorIPFIX_DeepCopyInto])
    (simp_all add: FlowCollectorIPFIX_DeepCopyInto_id FlowCollectorIPFIX_DeepCopy_def)

lemma FlowCollectorKafka_DeepCopy_spec: "DeepCopy_spec FlowCollectorKafka_DeepCopy"
  by (rule DeepCopy_specI [where into = FlowCollectorKafka_DeepCopyInto])
    (simp_all add: FlowCollectorKafka_DeepCopyInto_id FlowCollectorKafka_DeepCopy_def)

lemma FlowCollectorList_DeepCopy_spec: "K8s_ok k \<Longrightarrow> DeepCopy_spec (FlowCollectorList_DeepCopy k)"
  by (rule DeepCopy_specI [where into = "FlowCollectorList_DeepCopyInto k"])
    (simp_all add: FlowCollectorList_DeepCopyInto_id FlowCollectorList_DeepCopy_def)

lemma FlowCollectorLoki_DeepCopy_spec: "DeepCopy_spec FlowCollectorLoki_DeepCopy"
  by (rule DeepCopy_specI [where into = FlowCollectorLoki_DeepCopyInto])
    (simp_all add: FlowCollectorLoki_DeepCopyInto_id FlowCollectorLoki_DeepCopy_def)

lemma FlowCollectorSpec_DeepCopy_spec: "K8s_ok k \<Longrightarrow> DeepCopy_spec (FlowCollectorSpec_DeepCopy k)"
  by (rule DeepCopy_specI [where into = "FlowCollectorSpec_DeepCopyInto k"])
    (simp_all add: FlowCollectorSpec_DeepCopyInto_id FlowCollectorSpec_DeepCopy_def)

lemma FlowCollectorStatus_DeepCopy_spec: "K8s_ok k \<Longrightarrow> DeepCopy_spec (FlowCollectorStatus_DeepCopy k)"
  by (rule DeepCopy_specI [where into = "FlowCollectorStatus_DeepCopyInto k"])
    (simp_all add: FlowCollectorStatus_DeepCopyInto_id FlowCollectorStatus_DeepCopy_def)

lemma MetricsServerConfig_DeepCopy_spec: "DeepCopy_spec MetricsServerConfig_DeepCopy"
  by (rule DeepCopy_specI [where into = MetricsServerConfig_DeepCopyInto])
    (simp_all add: MetricsServerConfig_DeepCopyInto_id MetricsServerConfig_DeepCopy_def)

lemma OVNKubernetesConfig_DeepCopy_spec: "DeepCopy_spec OVNKubernetesConfig_DeepCopy"
  by (rule DeepCopy_specI [where into = OVNKubernetesConfig_DeepCopyInto])
    (simp_all add: OVNKubernetesConfig_DeepCopyInto_id OVNKubernetesConfig_DeepCopy_def)

lemma QuickFilter_DeepCopy_spec: "DeepCopy_spec QuickFilter_DeepCopy"
  by (rule DeepCopy_specI [where into = QuickFilter_DeepCopyInto])
    (simp_all add: QuickFilter_DeepCopyInto_id QuickFilter_DeepCopy_def)

lemma ServerTLS_DeepCopy_spec: "DeepCopy_spec ServerTLS_DeepCopy"
  by (rule DeepCopy_specI [where into = ServerTLS_DeepCopyInto])
    (simp_all add: ServerTLS_DeepCopyInto_id ServerTLS_DeepCopy_def)

section \<open>DeepCopy of the API types\<close>

lemma FlowCollector_DeepCopyObject_Some:
  "K8s_ok k \<Longrightarrow> p < length h \<Longrightarrow>
     FlowCollector_DeepCopyObject k h (Some p) =
       (h @ [h ! p], FlowCollectorObject (Some (length h)))"
  by (simp add: FlowCollector_DeepCopyObject_def FlowCollector_DeepCopy_def new_copy_def
      FlowCollector_DeepCopyInto_id)

text \<open>
  C10. For each of the generated API types of package v1alpha1, \<^verbatim>\<open>DeepCopy\<close> of the nil
  receiver is nil, and \<^verbatim>\<open>DeepCopy\<close> of a receiver in the heap is a pointer to a new cell
  (not nil, at an address the heap did not have) whose struct equals the receiver's, the
  old cells unchanged. So \<^verbatim>\<open>FlowCollector.DeepCopyObject\<close> of a non-nil receiver is not
  the nil interface. The \<^verbatim>\<open>DeepCopyInto\<close> methods of the Kubernetes library structs are
  taken to return a struct equal to their receiver.
\<close>

theorem DeepCopy_generated_types:
  assumes "K8s_ok k"
  shows "DeepCopy_spec CertificateReference_DeepCopy \<and>
    DeepCopy_spec ClientTLS_DeepCopy \<and>
    DeepCopy_spec ClusterNetworkOperatorConfig_DeepCopy \<and>
    DeepCopy_spec ConsolePluginPortConfig_DeepCopy \<and>
    DeepCopy_spec FLPMetrics_DeepCopy \<and>
    DeepCopy_spec (FlowCollector_DeepCopy k) \<and>
    DeepCopy_spec (FlowCollectorAgent_DeepCopy k) \<and>
    DeepCopy_spec (FlowCollectorConsolePlugin_DeepCopy k) \<and>
    DeepCopy_spec (FlowCollectorEBPF_DeepCopy k) \<and>
    DeepCopy_spec FlowCollectorExporter_DeepCopy \<and>
    DeepCopy_spec (FlowCollectorFLP_DeepCopy k) \<and>
    DeepCopy_spec (FlowCollectorHPA_DeepCopy k) \<and>
    DeepCopy_spec FlowCollectorIPFIX_DeepCopy \<and>
    DeepCopy_spec FlowCollectorKafka_DeepCopy \<and>
    DeepCopy_spec (FlowCollectorList_DeepCopy k) \<and>
    DeepCopy_spec FlowCollectorLoki_DeepCopy \<and>
    DeepCopy_spec (FlowCollectorSpec_DeepCopy k) \<and>
    DeepCopy_spec (FlowCollectorStatus_DeepCopy k) \<and>
    DeepCopy_spec MetricsServerConfig_DeepCopy \<and>
    DeepCopy_spec OVNKubernetesConfig_DeepCopy \<and>
    DeepCopy_spec QuickFilter_DeepCopy \<and>
    DeepCopy_spec ServerTLS_DeepCopy \<and>
    (\<forall>h p. p < length h \<longrightarrow>
       snd (FlowCollector_DeepCopyObject k h (Some p)) = FlowCollectorObject (Some (length h)) \<and>
       snd (FlowCollector_DeepCopyObject k h (Some p)) \<noteq> NilObject)"
proof -
  have obj: "\<forall>h p. p < length h \<longrightarrow>
       snd (FlowCollector_DeepCopyObject k h (Some p)) = FlowCollectorObject (Some (length h)) \<and>
       snd (FlowCollector_DeepCopyObject k h (Some p)) \<noteq> NilObject"
    by (simp add: FlowCollector_DeepCopyObject_Some [OF assms])
  show ?thesis
    by (intro conjI obj
      CertificateReference_DeepCopy_spec
      ClientTLS_DeepCopy_spec
      ClusterNetworkOperatorConfig_DeepCopy_spec
      ConsolePluginPortConfig_DeepCopy_spec
      FLPMetrics_DeepCopy_spec
      FlowCollector_DeepCopy_spec
      FlowCollectorAgent_DeepCopy_spec
      FlowCollectorConsolePlugin_DeepCopy_spec
      FlowCollectorEBPF_DeepCopy_spec
      FlowCollectorExporter_DeepCopy_spec
      FlowCollectorFLP_DeepCopy_spec
      FlowCollectorHPA_DeepCopy_spec
      FlowCollectorIPFIX_DeepCopy_spec
      FlowCollectorKafka_DeepCopy_spec
      FlowCollectorList_DeepCopy_spec
      FlowCollectorLoki_DeepCopy_spec
      FlowCollectorSpec_DeepCopy_spec
      FlowCollectorStatus_DeepCopy_spec
      MetricsServerConfig_DeepCopy_spec
      OVNKubernetesConfig_DeepCopy_spec
      QuickFilter_DeepCopy_spec
      ServerTLS_DeepCopy_spec
      assms)
qed

theorem DeepCopy_generated_types_witness:
  "K8s_ok plainK8s \<and>
   FlowCollector_DeepCopy plainK8s [sampleFlowCollector] None = ([sampleFlowCollector], None) \<and>
   FlowCollector_DeepCopy plainK8s [sampleFlowCollector] (Some 0) =
     ([sampleFlowCollector, sampleFlowCollector], Some 1) \<and>
   snd (FlowCollector_DeepCopyObject plainK8s [sampleFlowCollector] (Some 0)) =
     FlowCollectorObject (Some 1)"
proof -
  have ok: "K8s_ok plainK8s"
    by (simp add: K8s_ok_def plainK8s_def)
  note copies = DeepCopy_generated_types [OF ok, unfolded DeepCopy_spec_def]
  show ?thesis
    by (simp add: ok copies)
qed

section \<open>Deduplicator expiry, exporter queue and gRPC messages\<close>

lemma sint_twice:
  fixes d :: Duration
  assumes "- (2 ^ 62) \<le> sint d" and "sint d < 2 ^ 62"
  shows "sint (2 * d) = 2 * sint d"
proof -
  have "sint (2 * d) = signed_take_bit 63 (2 * sint d)"
    by (simp add: sint_word_ariths)
  also from assms have "\<dots> = 2 * sint d"
    by (intro signed_take_bit_int_eq_self) simp_all
  finally show ?thesis .
qed

text \<open>
  C5. With \<^verbatim>\<open>DeduperFCExpiry\<close> unset (zero), the expiry window of the deduplicator is
  \<^verbatim>\<open>2 * CacheActiveTimeout\<close>. As a number of nanoseconds it is twice the active timeout
  as long as the double fits an \<^verbatim>\<open>int64\<close>, and the sweep then keeps exactly the entries
  last seen no longer ago than twice the active timeout.
\<close>

theorem deduperExpiry_default:
  assumes "DeduperFCExpiry cfg = 0"
  shows "deduperExpiry cfg = 2 * CacheActiveTimeout cfg \<and>
    (- (2 ^ 62) \<le> sint (CacheActiveTimeout cfg) \<and> sint (CacheActiveTimeout cfg) < 2 ^ 62 \<longrightarrow>
       sint (deduperExpiry cfg) = 2 * sint (CacheActiveTimeout cfg) \<and>
       set (dedupSweep cfg now tbl) =
         {(k, e). (k, e) \<in> set tbl \<and>
            now - dedup_last_seen e \<le> 2 * sint (CacheActiveTimeout cfg)})"
proof -
  from assms have eq: "deduperExpiry cfg = 2 * CacheActiveTimeout cfg"
    by (simp add: deduperExpiry_def)
  show ?thesis
  proof (intro conjI impI)
    show "deduperExpiry cfg = 2 * CacheActiveTimeout cfg" by (rule eq)
  next
    assume r: "- (2 ^ 62) \<le> sint (CacheActiveTimeout cfg) \<and> sint (CacheActiveTimeout cfg) < 2 ^ 62"
    then show s: "sint (deduperExpiry cfg) = 2 * sint (CacheActiveTimeout cfg)"
      by (simp add: eq sint_twice)
    show "set (dedupSweep cfg now tbl) =
        {(k, e). (k, e) \<in> set tbl \<and>
           now - dedup_last_seen e \<le> 2 * sint (CacheActiveTimeout cfg)}"
      by (auto simp: dedupSweep_def s)
  qed
qed

theorem deduperExpiry_default_witness:
  "sint (deduperExpiry (zeroConfig\<lparr>CacheActiveTimeout := 5000000000\<rparr>)) = 10000000000 \<and>
   dedupSweep (zeroConfig\<lparr>CacheActiveTimeout := 5000000000\<rparr>) 12000000000
     [(1 :: nat, \<lparr>owner = ''eth0'', dedup_last_seen = 1000000000\<rparr>),
      (2, \<lparr>owner = ''eth1'', dedup_last_seen = 3000000000\<rparr>)]
     = [(2, \<lparr>owner = ''eth1'', dedup_last_seen = 3000000000\<rparr>)]"
proof -
  let ?cfg = "zeroConfig\<lparr>CacheActiveTimeout := 5000000000\<rparr>"
  have z: "DeduperFCExpiry ?cfg = 0"
    by (simp add: zeroConfig_def)
  have r: "- (2 ^ 62) \<le> sint (CacheActiveTimeout ?cfg) \<and> sint (CacheActiveTimeout ?cfg) < 2 ^ 62"
    by (simp add: zeroConfig_def)
  from deduperExpiry_default [OF z] r
  have s: "sint (deduperExpiry ?cfg) = 2 * sint (CacheActiveTimeout ?cfg)"
    by blast
  then have "sint (deduperExpiry ?cfg) = 10000000000"
    by (simp add: zeroConfig_def)
  then show ?thesis
    by (simp add: dedupSweep_def)
qed

text \<open>
  C6. The capacity of the exporter's queue is \<^verbatim>\<open>BuffersLength\<close> when
  \<^verbatim>\<open>ExporterBufferLength\<close> is unset (zero), \<^verbatim>\<open>ExporterBufferLength\<close> when that option is
  configured and larger than \<^verbatim>\<open>BuffersLength\<close>, and \<^verbatim>\<open>BuffersLength\<close> whenever
  \<^verbatim>\<open>ExporterBufferLength\<close> is not the larger.
\<close>

theorem exporterQueueCapacity_cases:
  "(ExporterBufferLength cfg = 0 \<longrightarrow> exporterQueueCapacity cfg = BuffersLength cfg) \<and>
   (ExporterBufferLength cfg \<noteq> 0 \<and>
      sint (BuffersLength cfg) < sint (ExporterBufferLength cfg) \<longrightarrow>
        exporterQueueCapacity cfg = ExporterBufferLength cfg) \<and>
   (\<not> sint (BuffersLength cfg) < sint (ExporterBufferLength cfg) \<longrightarrow>
        exporterQueueCapacity cfg = BuffersLength cfg)"
  by (simp add: exporterQueueCapacity_def Let_def)

theorem exporterQueueCapacity_cases_witness:
  "exporterQueueCapacity (zeroConfig\<lparr>BuffersLength := 50\<rparr>) = 50 \<and>
   exporterQueueCapacity (zeroConfig\<lparr>BuffersLength := 50, ExporterBufferLength := 100\<rparr>) = 100 \<and>
   exporterQueueCapacity (zeroConfig\<lparr>BuffersLength := 50, ExporterBufferLength := 20\<rparr>) = 50"
  using exporterQueueCapacity_cases [of "zeroConfig\<lparr>BuffersLength := 50\<rparr>"]
    exporterQueueCapacity_cases
      [of "zeroConfig\<lparr>BuffersLength := 50, ExporterBufferLength := 100\<rparr>"]
    exporterQueueCapacity_cases
      [of "zeroConfig\<lparr>BuffersLength := 50, ExporterBufferLength := 20\<rparr>"]
  by (simp add: zeroConfig_def)











section \<open>The accounting cache stays within CacheMaxFlows\<close>

lemma live_enqueue: "live (enqueue cfg e c) = live c"
  by (simp add: enqueue_def)

lemma live_fold_enqueue: "live (fold (enqueue cfg) es c) = live c"
  by (induction es arbitrary: c) (simp_all add: live_enqueue)

lemma oldest_Some:
  "es \<noteq> [] \<Longrightarrow>
     \<exists>e. oldest es = Some e \<and> e \<in> set es \<and>
       (\<forall>x \<in> set es. first_seen (snd e) \<le> first_seen (snd x))"
proof (induction es)
  case Nil
  then show ?case by simp
next
  case (Cons a es)
  show ?case
  proof (cases "es = []")
    case True
    then show ?thesis by simp
  next
    case False
    with Cons.IH obtain e where e: "oldest es = Some e" "e \<in> set es"
      "\<forall>x \<in> set es. first_seen (snd e) \<le> first_seen (snd x)"
      by blast
    show ?thesis
    proof (cases "first_seen (snd a) \<le> first_seen (snd e)")
      case True
      with e show ?thesis by force
    next
      case False
      with e show ?thesis by force
    qed
  qed
qed

lemma Admit_known:
  "map_of (live c) (ev_key ev) = Some f \<Longrightarrow> length (live (Admit cfg ev c)) = length (live c)"
  by (simp add: Admit_def)

lemma Admit_room:
  assumes "map_of (live c) (ev_key ev) = None"
    and "\<not> sint (CacheMaxFlows cfg) < int (length (live c)) + 1"
  shows "Admit cfg ev c = c\<lparr>live := live c @ [(ev_key ev, newFlow ev)]\<rparr>"
  using assms by (simp add: Admit_def)

lemma Admit_full:
  assumes "map_of (live c) (ev_key ev) = None"
    and "sint (CacheMaxFlows cfg) < int (length (live c)) + 1"
    and "oldest (live c) = Some e"
  shows "Admit cfg ev c =
    (enqueue cfg e (c\<lparr>live := remove1 e (live c)\<rparr>))
      \<lparr>live := remove1 e (live c) @ [(ev_key ev, newFlow ev)]\<rparr>"
  using assms by (simp add: Admit_def Let_def live_enqueue)

lemma Admit_bound:
  assumes cap: "0 < sint (CacheMaxFlows cfg)"
    and le: "int (length (live c)) \<le> sint (CacheMaxFlows cfg)"
  shows "int (length (live (Admit cfg ev c))) \<le> sint (CacheMaxFlows cfg)"
proof (cases "map_of (live c) (ev_key ev)")
  case (Some f)
  with le show ?thesis by (simp add: Admit_known)
next
  case None
  show ?thesis
  proof (cases "sint (CacheMaxFlows cfg) < int (length (live c)) + 1")
    case False
    with None show ?thesis by (simp add: Admit_room)
  next
    case True
    with cap have "live c \<noteq> []" by auto
    then obtain e where e: "oldest (live c) = Some e" "e \<in> set (live c)"
      using oldest_Some by blast
    from e(2) have "length (remove1 e (live c)) = length (live c) - 1"
      by (simp add: length_remove1)
    moreover from e(2) have "0 < length (live c)"
      by (cases "live c") simp_all
    ultimately have "length (remove1 e (live c) @ [(ev_key ev, newFlow ev)]) = length (live c)"
      by simp
    with le show ?thesis
      by (simp add: Admit_full [OF None True e(1)])
  qed
qed

lemma Sweep_bound: "length (live (Sweep cfg now c)) \<le> length (live c)"
  by (simp add: Sweep_def Let_def live_fold_enqueue)

lemma cacheStep_bound:
  assumes "0 < sint (CacheMaxFlows cfg)"
    and "int (length (live c)) \<le> sint (CacheMaxFlows cfg)"
  shows "int (length (live (cacheStep cfg i c))) \<le> sint (CacheMaxFlows cfg)"
proof (cases i)
  case (Event ev)
  with assms show ?thesis by (simp add: Admit_bound)
next
  case (Tick now)
  with assms Sweep_bound [of cfg now c] show ?thesis by simp
next
  case Exported
  with assms show ?thesis by simp
qed

lemma cacheStates_bound:
  assumes "0 < sint (CacheMaxFlows cfg)"
  shows "int (length (live c)) \<le> sint (CacheMaxFlows cfg) \<Longrightarrow>
    c' \<in> set (cacheStates cfg c ins) \<Longrightarrow>
    int (length (live c')) \<le> sint (CacheMaxFlows cfg)"
proof (induction ins arbitrary: c)
  case Nil
  then show ?case by simp
next
  case (Cons i ins)
  from Cons.prems(2) have "c' = c \<or> c' \<in> set (cacheStates cfg (cacheStep cfg i c) ins)"
    by simp
  then show ?case
  proof
    assume "c' = c"
    with Cons.prems(1) show ?thesis by simp
  next
    assume "c' \<in> set (cacheStates cfg (cacheStep cfg i c) ins)"
    with Cons.IH cacheStep_bound [OF assms Cons.prems(1)] show ?thesis by blast
  qed
qed

lemma Admit_evicts_oldest:
  assumes cap: "0 < sint (CacheMaxFlows cfg)"
    and new: "map_of (live c) (ev_key ev) = None"
    and full: "sint (CacheMaxFlows cfg) < int (length (live c)) + 1"
  shows "\<exists>e. oldest (live c) = Some e \<and> e \<in> set (live c) \<and>
      (\<forall>x \<in> set (live c). first_seen (snd e) \<le> first_seen (snd x)) \<and>
      live (Admit cfg ev c) = remove1 e (live c) @ [(ev_key ev, newFlow ev)] \<and>
      (if int (length (export_queue c)) < sint (exporterQueueCapacity cfg)
       then export_queue (Admit cfg ev c) = export_queue c @ [e] \<and>
            export_drops (Admit cfg ev c) = export_drops c
       else export_queue (Admit cfg ev c) = export_queue c \<and>
            export_drops (Admit cfg ev c) = Suc (export_drops c))"
proof -
  from cap full have "live c \<noteq> []" by auto
  then obtain e where e: "oldest (live c) = Some e" "e \<in> set (live c)"
    "\<forall>x \<in> set (live c). first_seen (snd e) \<le> first_seen (snd x)"
    using oldest_Some by blast
  have "live (Admit cfg ev c) = remove1 e (live c) @ [(ev_key ev, newFlow ev)]"
    by (simp add: Admit_full [OF new full e(1)])
  moreover have "if int (length (export_queue c)) < sint (exporterQueueCapacity cfg)
       then export_queue (Admit cfg ev c) = export_queue c @ [e] \<and>
            export_drops (Admit cfg ev c) = export_drops c
       else export_queue (Admit cfg ev c) = export_queue c \<and>
            export_drops (Admit cfg ev c) = Suc (export_drops c)"
    by (simp add: Admit_full [OF new full e(1)] enqueue_def)
  ultimately show ?thesis using e by blast
qed

text \<open>
  C4, as the specification states it: for every configured \<^verbatim>\<open>CacheMaxFlows\<close> the cache
  would never hold more live entries than that. \<^verbatim>\<open>CacheMaxFlows\<close> is an \<^verbatim>\<open>int\<close> that
  nothing validates, and \<^verbatim>\<open>Admit\<close> always inserts: with \<^verbatim>\<open>CacheMaxFlows\<close> 0 the empty
  cache has no entry to evict, and after one event it holds one live entry.
\<close>

theorem cache_zero_capacity_counterexample:
  "sint (CacheMaxFlows (smallCacheConfig\<lparr>CacheMaxFlows := 0\<rparr>)) = 0 \<and>
   Admit (smallCacheConfig\<lparr>CacheMaxFlows := 0\<rparr>) (eventAt 1 10) emptyCache
     \<in> set (cacheStates (smallCacheConfig\<lparr>CacheMaxFlows := 0\<rparr>) emptyCache
           [Event (eventAt 1 10)]) \<and>
   live (Admit (smallCacheConfig\<lparr>CacheMaxFlows := 0\<rparr>) (eventAt 1 10) emptyCache) =
     [(1, newFlow (eventAt 1 10))] \<and>
   \<not> int (length (live
         (Admit (smallCacheConfig\<lparr>CacheMaxFlows := 0\<rparr>) (eventAt 1 10) emptyCache)))
       \<le> sint (CacheMaxFlows (smallCacheConfig\<lparr>CacheMaxFlows := 0\<rparr>))"
  by (simp add: Admit_def emptyCache_def eventAt_def smallCacheConfig_def zeroConfig_def)

text \<open>
  C4, amended. With a positive \<^verbatim>\<open>CacheMaxFlows\<close>, whatever events, sweep ticks and exporter
  reads arrive, the cache that starts empty never holds more than \<^verbatim>\<open>CacheMaxFlows\<close> live
  entries, in any state it goes through. And when an event of a new FlowKey arrives at a
  cache that has no room for one more entry, one entry leaves: the oldest by first-seen
  time, which goes to the export queue (or to the drop counter when the queue is full),
  and the new entry is inserted after it has left.
\<close>

theorem cache_within_CacheMaxFlows:
  fixes ins :: "'k CacheInput list"
  assumes "0 < sint (CacheMaxFlows cfg)"
  shows "(\<forall>c \<in> set (cacheStates cfg emptyCache ins).
       int (length (live c)) \<le> sint (CacheMaxFlows cfg)) \<and>
    (\<forall>(c :: 'k AccountingCache) (ev :: 'k RawEvent).
       map_of (live c) (ev_key ev) = None \<and>
       sint (CacheMaxFlows cfg) < int (length (live c)) + 1 \<longrightarrow>
       (\<exists>e. oldest (live c) = Some e \<and> e \<in> set (live c) \<and>
          (\<forall>x \<in> set (live c). first_seen (snd e) \<le> first_seen (snd x)) \<and>
          live (Admit cfg ev c) = remove1 e (live c) @ [(ev_key ev, newFlow ev)] \<and>
          (if int (length (export_queue c)) < sint (exporterQueueCapacity cfg)
           then export_queue (Admit cfg ev c) = export_queue c @ [e] \<and>
                export_drops (Admit cfg ev c) = export_drops c
           else export_queue (Admit cfg ev c) = export_queue c \<and>
                export_drops (Admit cfg ev c) = Suc (export_drops c))))"
proof (intro conjI ballI allI impI)
  fix c :: "'k AccountingCache"
  assume "c \<in> set (cacheStates cfg emptyCache ins)"
  moreover from assms have "int (length (live (emptyCache :: 'k AccountingCache)))
      \<le> sint (CacheMaxFlows cfg)"
    by (simp add: emptyCache_def)
  ultimately show "int (length (live c)) \<le> sint (CacheMaxFlows cfg)"
    by (rule cacheStates_bound [OF assms, rotated])
next
  fix c :: "'k AccountingCache" and ev :: "'k RawEvent"
  assume "map_of (live c) (ev_key ev) = None \<and>
    sint (CacheMaxFlows cfg) < int (length (live c)) + 1"
  then show "\<exists>e. oldest (live c) = Some e \<and> e \<in> set (live c) \<and>
      (\<forall>x \<in> set (live c). first_seen (snd e) \<le> first_seen (snd x)) \<and>
      live (Admit cfg ev c) = remove1 e (live c) @ [(ev_key ev, newFlow ev)] \<and>
      (if int (length (export_queue c)) < sint (exporterQueueCapacity cfg)
       then export_queue (Admit cfg ev c) = export_queue c @ [e] \<and>
            export_drops (Admit cfg ev c) = export_drops c
       else export_queue (Admit cfg ev c) = export_queue c \<and>
            export_drops (Admit cfg ev c) = Suc (export_drops c))"
    using Admit_evicts_oldest [OF assms] by blast
qed

theorem cache_within_CacheMaxFlows_witness:
  "0 < sint (CacheMaxFlows smallCacheConfig) \<and>
   list_all (\<lambda>c. int (length (live c)) \<le> 2)
     (cacheStates smallCacheConfig emptyCache
        [Event (eventAt 1 10), Event (eventAt 2 20), Event (eventAt 3 30), Tick 40, Exported]) \<and>
   live (Admit smallCacheConfig (eventAt 3 30) fullCache) =
     [(2, newFlow (eventAt 2 20)), (3, newFlow (eventAt 3 30))] \<and>
   export_queue (Admit smallCacheConfig (eventAt 3 30) fullCache) =
     [(1, newFlow (eventAt 1 10))] \<and>
   export_drops (Admit smallCacheConfig (eventAt 3 30) fullCache) = 0"
proof -
  let ?ins = "[Event (eventAt 1 10), Event (eventAt 2 20), Event (eventAt 3 30), Tick 40,
    Exported]"
  have cap: "sint (CacheMaxFlows smallCacheConfig) = 2"
    by (simp add: smallCacheConfig_def zeroConfig_def)
  then have h: "0 < sint (CacheMaxFlows smallCacheConfig)"
    by simp
  note run = cache_within_CacheMaxFlows [OF h, of ?ins]
  from run have states: "\<forall>c \<in> set (cacheStates smallCacheConfig emptyCache ?ins).
      int (length (live c)) \<le> sint (CacheMaxFlows smallCacheConfig)"
    by (rule conjunct1)
  have new: "map_of (live fullCache) (ev_key (eventAt 3 30)) = None"
    by (simp add: fullCache_def eventAt_def)
  have full: "sint (CacheMaxFlows smallCacheConfig) < int (length (live fullCache)) + 1"
    by (simp add: cap fullCache_def)
  have old: "oldest (live fullCache) = Some (1, newFlow (eventAt 1 10))"
    by (simp add: fullCache_def newFlow_def eventAt_def)
  have room: "int (length (export_queue fullCache)) < sint (exporterQueueCapacity smallCacheConfig)"
    by (simp add: fullCache_def exporterQueueCapacity_def smallCacheConfig_def zeroConfig_def)
  from run new full obtain e where e: "oldest (live fullCache) = Some e"
    "live (Admit smallCacheConfig (eventAt 3 30) fullCache) =
       remove1 e (live fullCache) @ [(ev_key (eventAt 3 30), newFlow (eventAt 3 30))]"
    "if int (length (export_queue fullCache)) < sint (exporterQueueCapacity smallCacheConfig)
     then export_queue (Admit smallCacheConfig (eventAt 3 30) fullCache) =
            export_queue fullCache @ [e] \<and>
          export_drops (Admit smallCacheConfig (eventAt 3 30) fullCache) =
            export_drops fullCache
     else export_queue (Admit smallCacheConfig (eventAt 3 30) fullCache) =
            export_queue fullCache \<and>
          export_drops (Admit smallCacheConfig (eventAt 3 30) fullCache) =
            Suc (export_drops fullCache)"
    by blast
  from e(1) old have "e = (1, newFlow (eventAt 1 10))"
    by simp
  with e(2,3) room have
    "live (Admit smallCacheConfig (eventAt 3 30) fullCache) =
       [(2, newFlow (eventAt 2 20)), (3, newFlow (eventAt 3 30))]"
    "export_queue (Admit smallCacheConfig (eventAt 3 30) fullCache) =
       [(1, newFlow (eventAt 1 10))]"
    "export_drops (Admit smallCacheConfig (eventAt 3 30) fullCache) = 0"
    by (simp_all add: fullCache_def eventAt_def)
  with h states show ?thesis
    by (simp add: list_all_iff cap)
qed

end
